theory Spec2Isabelle
  imports Main "HOL-Library.Sublist" "HOL-Library.Multiset" "HOL-Library.Char_ord"
    "HOL-Library.List_Lexorder"
begin

section \<open>Data model\<close>

text \<open>
  JSON values, as sent by \<^verbatim>\<open>res.json\<close> and by \<^verbatim>\<open>broadcast\<close>. An object keeps its
  keys in the order of the object literal. A serialised message is represented by the
  value it encodes.
\<close>

datatype json =
    JNull
  | JBool bool
  | JNum nat
  | JStr string
  | JArr "json list"
  | JObj "(string \<times> json) list"

text \<open>
  The metadata record \<^verbatim>\<open>videoData\<close> of the local variant (server.js, lines 109-117).
  The fields \<^verbatim>\<open>id\<close> and \<^verbatim>\<open>size\<close> carry a suffix, their names being HOL constants.
\<close>

record video =
  id_v :: string
  name :: string
  filename :: string
  url :: string
  size_v :: nat
  mimetype :: string
  timestamp :: string

text \<open>
  A multipart file part as the \<^verbatim>\<open>fileFilter\<close> sees it, and \<^verbatim>\<open>req.file\<close> as the storage
  engine completes it.
\<close>

record part =
  originalname :: string
  part_mimetype :: string
  part_size :: nat

record req_file = part +
  file_filename :: string
  file_path :: string

text \<open>
  A WebSocket as it is at the time of a request. Sockets are objects compared by
  identity; the identity is a number and the state of every socket is a function of it.
  The server reads the \<^verbatim>\<open>readyState\<close> only. Whether a message handed to \<^verbatim>\<open>send\<close> is lost
  (\<open>send_fails\<close>: the peer is gone) is not visible to it: \<^verbatim>\<open>send\<close> is called without a
  callback, and on an open socket the WebSocket library does not raise from \<^verbatim>\<open>send\<close>; it
  reports a failed write later, through the socket's \<^verbatim>\<open>error\<close> and \<^verbatim>\<open>close\<close> events.
\<close>

datatype ready_state = CONNECTING | OPEN | CLOSING | CLOSED

record socket =
  readyState :: ready_state
  send_fails :: bool

type_synonym sockets = "nat \<Rightarrow> socket"

text \<open>The search the cloud variant sends to the storage provider.\<close>

record search_query =
  expression :: string
  sort_by :: "string \<times> string"
  max_results :: nat

datatype exn =
    Error string
  | MulterError string

text \<open>
  What a request does outside the server's memory, in the order of the calls: a file
  written by the storage engine, a call of \<^verbatim>\<open>unlinkSync\<close> (whether or not it succeeds), a
  call of \<^verbatim>\<open>send\<close> on a socket, and the calls of the storage provider.
\<close>

datatype effect =
    WriteFile string
  | Unlink string
  | Send nat json
  | ProviderUpload string
  | ProviderSearch search_query
  | ProviderDestroy string

datatype response = Response nat json

text \<open>
  The state of the local variant: the module-level \<^verbatim>\<open>videos\<close> array, the \<^verbatim>\<open>clients\<close>
  set (a JavaScript Set iterates in insertion order, so it is a list without
  repetition) and the names of the files in the uploads directory.
\<close>

record state =
  videos :: "video list"
  clients :: "nat list"
  files :: "string list"

text \<open>
  One upload request of the local variant together with what the environment answers
  while it is served: the two readings of \<^verbatim>\<open>Date.now()\<close> (file name, id), the rounded
  random number, the value of \<^verbatim>\<open>path.extname(file.originalname)\<close>, the ISO time, the
  error of the disk write, if any, and the error with which the system refuses to
  remove an existing file, if any (\<^verbatim>\<open>EPERM\<close>, \<^verbatim>\<open>EACCES\<close>, \<^verbatim>\<open>EBUSY\<close>, \<^verbatim>\<open>EISDIR\<close>).
\<close>

record upload_request =
  file_field :: "part option"
  body_timestamp :: "string option"
  now_filename :: nat
  random :: nat
  extname :: string
  now_id :: nat
  iso_now :: string
  disk_error :: "string option"
  unlink_error :: "string option"

section \<open>Library operations used by the server\<close>

text \<open>The decimal numeral of a number, as \<^verbatim>\<open>toString\<close> and string concatenation give it.\<close>

fun toString :: "nat \<Rightarrow> string" where
  "toString n =
     (if n < 10 then [''0123456789'' ! n]
      else toString (n div 10) @ [''0123456789'' ! (n mod 10)])"

declare toString.simps [simp del]

text \<open>
  The uploads directory is the list of the names of its files: \<^verbatim>\<open>existsSync\<close> is
  membership. \<^verbatim>\<open>unlinkSync\<close> raises \<^verbatim>\<open>ENOENT\<close> when the name is missing; on an
  existing file it raises the error of the request's environment, if there is one, and
  removes the name otherwise.
\<close>

definition existsSync :: "string list \<Rightarrow> string \<Rightarrow> bool" where
  "existsSync fs p = (p \<in> set fs)"

definition unlinkSync :: "string option \<Rightarrow> string list \<Rightarrow> string \<Rightarrow> exn + string list" where
  "unlinkSync fault fs p =
     (if p \<notin> set fs then Inl (Error ''ENOENT'')
      else (case fault of
              Some code \<Rightarrow> Inl (Error code)
            | None \<Rightarrow> Inr (removeAll p fs)))"

text \<open>\<^verbatim>\<open>Set.add\<close> and \<^verbatim>\<open>Set.delete\<close> on a set kept in insertion order.\<close>

definition set_add :: "nat \<Rightarrow> nat list \<Rightarrow> nat list" where
  "set_add ws cs = (if ws \<in> set cs then cs else cs @ [ws])"

definition set_delete :: "nat \<Rightarrow> nat list \<Rightarrow> nat list" where
  "set_delete ws cs = removeAll ws cs"

text \<open>
  Array operations: \<^verbatim>\<open>findIndex\<close> (\<open>None\<close> for the result -1), \<^verbatim>\<open>splice(i, 1)\<close> and
  \<^verbatim>\<open>pop\<close> (\<open>None\<close> for \<^verbatim>\<open>undefined\<close> on an empty array).
\<close>

fun findIndex :: "('a \<Rightarrow> bool) \<Rightarrow> 'a list \<Rightarrow> nat option" where
  "findIndex p [] = None"
| "findIndex p (x # xs) =
     (if p x then Some 0
      else (case findIndex p xs of None \<Rightarrow> None | Some i \<Rightarrow> Some (Suc i)))"

definition splice1 :: "nat \<Rightarrow> 'a list \<Rightarrow> 'a list" where
  "splice1 i xs = take i xs @ drop (Suc i) xs"

definition pop :: "'a list \<Rightarrow> 'a option \<times> 'a list" where
  "pop xs = (if xs = [] then (None, []) else (Some (last xs), butlast xs))"

definition error_body :: "string \<Rightarrow> json" where
  "error_body msg = JObj [(''error'', JStr msg)]"

definition video_json :: "video \<Rightarrow> json" where
  "video_json v = JObj
     [(''id'', JStr (id_v v)),
      (''name'', JStr (name v)),
      (''filename'', JStr (filename v)),
      (''url'', JStr (url v)),
      (''size'', JNum (size_v v)),
      (''mimetype'', JStr (mimetype v)),
      (''timestamp'', JStr (timestamp v))]"

fun keys :: "json \<Rightarrow> string list" where
  "keys (JObj kvs) = map fst kvs"
| "keys _ = []"

section \<open>Live notifier (server.js, lines 58-85)\<close>

definition on_connection :: "nat \<Rightarrow> state \<Rightarrow> state" where
  "on_connection ws st = st\<lparr>clients := set_add ws (clients st)\<rparr>"

definition on_close :: "nat \<Rightarrow> state \<Rightarrow> state" where
  "on_close ws st = st\<lparr>clients := set_delete ws (clients st)\<rparr>"

definition on_error :: "nat \<Rightarrow> state \<Rightarrow> state" where
  "on_error ws st = st\<lparr>clients := set_delete ws (clients st)\<rparr>"

text \<open>
  \<^verbatim>\<open>clients.forEach\<close> with the body of the loop: a socket that is not open is passed
  over, an open one is handed the message. The third component of \<open>broadcast\<close> is the
  error raised to the caller; the function has no \<^verbatim>\<open>throw\<close>, serialising these events
  does not raise and neither does \<^verbatim>\<open>send\<close> on an open socket, so there is none.
\<close>

fun forEach_send :: "sockets \<Rightarrow> json \<Rightarrow> nat list \<Rightarrow> effect list" where
  "forEach_send env message [] = []"
| "forEach_send env message (client # cs) =
     (if readyState (env client) = OPEN then Send client message # forEach_send env message cs
      else forEach_send env message cs)"

definition broadcast :: "sockets \<Rightarrow> json \<Rightarrow> state \<Rightarrow> state \<times> effect list \<times> exn option" where
  "broadcast env data st = (st, forEach_send env data (clients st), None)"

section \<open>Local variant: upload (server.js, lines 28-53 and 101-149)\<close>

definition fileSize_limit :: nat where
  "fileSize_limit = 100 * 1024 * 1024"

definition fileFilter :: "part \<Rightarrow> exn + bool" where
  "fileFilter file =
     (if prefix ''video/'' (part_mimetype file) then Inr True
      else Inl (Error ''Only video files are allowed''))"

definition uniqueName :: "upload_request \<Rightarrow> string" where
  "uniqueName rq =
     toString (now_filename rq) @ ''-'' @ toString (random rq) @ extname rq"

text \<open>\<^verbatim>\<open>req.file\<close> as the disk storage engine completes the accepted part.\<close>

definition disk_file :: "upload_request \<Rightarrow> part \<Rightarrow> req_file" where
  "disk_file rq file =
     \<lparr>originalname = originalname file,
      part_mimetype = part_mimetype file,
      part_size = part_size file,
      file_filename = uniqueName rq,
      file_path = ''uploads/'' @ uniqueName rq\<rparr>"

text \<open>
  \<^verbatim>\<open>upload.single('video')\<close>: the multipart middleware calls the file filter before it
  hands the part to the storage engine; an oversized part and a failed write end the
  request with an error, and the partial file is removed. Without a file part
  \<^verbatim>\<open>req.file\<close> stays undefined.
\<close>

definition upload_single ::
    "upload_request \<Rightarrow> state \<Rightarrow> exn + (state \<times> effect list \<times> req_file option)" where
  "upload_single rq st =
     (case file_field rq of
        None \<Rightarrow> Inr (st, [], None)
      | Some file \<Rightarrow>
          (case fileFilter file of
             Inl e \<Rightarrow> Inl e
           | Inr _ \<Rightarrow>
               if fileSize_limit < part_size file then Inl (MulterError ''LIMIT_FILE_SIZE'')
               else (case disk_error rq of
                       Some msg \<Rightarrow> Inl (Error msg)
                     | None \<Rightarrow>
                         Inr (st\<lparr>files := List.insert (uniqueName rq) (files st)\<rparr>,
                              [WriteFile (uniqueName rq)],
                              Some (disk_file rq file)))))"

definition videoData :: "upload_request \<Rightarrow> req_file \<Rightarrow> video" where
  "videoData rq file =
     \<lparr>id_v = toString (now_id rq),
      name = originalname file,
      filename = file_filename file,
      url = ''/uploads/'' @ file_filename file,
      size_v = part_size file,
      mimetype = part_mimetype file,
      timestamp = (case body_timestamp rq of
                     None \<Rightarrow> iso_now rq
                   | Some t \<Rightarrow> if t = [] then iso_now rq else t)\<rparr>"

text \<open>
  Lines 122-130, after the \<^verbatim>\<open>unshift\<close>: the cap with the release of the old file. The
  record is popped before its file is unlinked, so an error of \<^verbatim>\<open>unlinkSync\<close> leaves the
  catalog as the \<^verbatim>\<open>pop\<close> made it.
\<close>

definition keep_last_20 :: "string option \<Rightarrow> state \<Rightarrow> state \<times> effect list \<times> exn option" where
  "keep_last_20 fault st =
     (if 20 < length (videos st) then
        (case pop (videos st) of
           (None, vs) \<Rightarrow> (st\<lparr>videos := vs\<rparr>, [], Some (Error ''TypeError''))
         | (Some oldVideo, vs) \<Rightarrow>
             (if existsSync (files st) (filename oldVideo) then
                (case unlinkSync fault (files st) (filename oldVideo) of
                   Inl e \<Rightarrow> (st\<lparr>videos := vs\<rparr>, [Unlink (filename oldVideo)], Some e)
                 | Inr fs \<Rightarrow>
                     (st\<lparr>videos := vs, files := fs\<rparr>, [Unlink (filename oldVideo)], None))
              else (st\<lparr>videos := vs\<rparr>, [], None)))
      else (st, [], None))"

definition new_video_event :: "video \<Rightarrow> json" where
  "new_video_event v = JObj [(''type'', JStr ''new_video''), (''video'', video_json v)]"

text \<open>The body of the \<^verbatim>\<open>try\<close> (lines 108-143) once \<^verbatim>\<open>req.file\<close> is known to be there.\<close>

definition upload_try ::
    "sockets \<Rightarrow> upload_request \<Rightarrow> req_file \<Rightarrow> state \<Rightarrow> state \<times> effect list \<times> exn option" where
  "upload_try env rq file st =
     (case keep_last_20 (unlink_error rq) (st\<lparr>videos := videoData rq file # videos st\<rparr>) of
        (st1, es1, Some e) \<Rightarrow> (st1, es1, Some e)
      | (st1, es1, None) \<Rightarrow>
          (case broadcast env (new_video_event (videoData rq file)) st1 of
             (st2, es2, r) \<Rightarrow> (st2, es1 @ es2, r)))"

definition upload_video_handler ::
    "sockets \<Rightarrow> upload_request \<Rightarrow> req_file option \<Rightarrow> state \<Rightarrow> state \<times> effect list \<times> response" where
  "upload_video_handler env rq file_opt st =
     (case file_opt of
        None \<Rightarrow> (st, [], Response 400 (error_body ''No video file uploaded''))
      | Some file \<Rightarrow>
          (case upload_try env rq file st of
             (st1, es, None) \<Rightarrow>
               (st1, es, Response 200 (JObj
                  [(''success'', JBool True),
                   (''message'', JStr ''Video uploaded successfully''),
                   (''video'', video_json (videoData rq file))]))
           | (st1, es, Some e) \<Rightarrow>
               (st1, es, Response 500 (error_body ''Failed to upload video''))))"

text \<open>Lines 180-189: the error-handling middleware.\<close>

definition error_middleware :: "exn \<Rightarrow> response" where
  "error_middleware error =
     (case error of
        MulterError code \<Rightarrow>
          if code = ''LIMIT_FILE_SIZE''
          then Response 400 (error_body ''File too large. Maximum size is 100MB.'')
          else Response 500 (error_body ''Internal server error'')
      | _ \<Rightarrow> Response 500 (error_body ''Internal server error''))"

definition post_upload_video ::
    "sockets \<Rightarrow> upload_request \<Rightarrow> state \<Rightarrow> state \<times> effect list \<times> response" where
  "post_upload_video env rq st =
     (case upload_single rq st of
        Inl e \<Rightarrow> (st, [], error_middleware e)
      | Inr (st1, es1, file_opt) \<Rightarrow>
          (case upload_video_handler env rq file_opt st1 of
             (st2, es2, resp) \<Rightarrow> (st2, es1 @ es2, resp)))"

section \<open>Local variant: listing and deletion (lines 96-99 and 151-178)\<close>

definition get_videos :: "state \<Rightarrow> state \<times> effect list \<times> response" where
  "get_videos st = (st, [], Response 200 (JArr (map video_json (videos st))))"

definition video_deleted_event :: "string \<Rightarrow> json" where
  "video_deleted_event videoId =
     JObj [(''type'', JStr ''video_deleted''), (''videoId'', JStr videoId)]"

text \<open>Lines 162-166; \<open>fault\<close> is the error of the environment for this request, if any.\<close>

definition delete_file ::
    "string option \<Rightarrow> string \<Rightarrow> state \<Rightarrow> state \<times> effect list \<times> exn option" where
  "delete_file fault filePath st =
     (if existsSync (files st) filePath then
        (case unlinkSync fault (files st) filePath of
           Inl e \<Rightarrow> (st, [Unlink filePath], Some e)
         | Inr fs \<Rightarrow> (st\<lparr>files := fs\<rparr>, [Unlink filePath], None))
      else (st, [], None))"

text \<open>
  The handler has no \<^verbatim>\<open>try\<close>: an error of \<^verbatim>\<open>unlinkSync\<close> leaves it before the
  \<^verbatim>\<open>splice\<close> and reaches the error-handling middleware.
\<close>

definition delete_video ::
    "sockets \<Rightarrow> string option \<Rightarrow> string \<Rightarrow> state \<Rightarrow> state \<times> effect list \<times> response" where
  "delete_video env fault videoId st =
     (case findIndex (\<lambda>v. id_v v = videoId) (videos st) of
        None \<Rightarrow> (st, [], Response 404 (error_body ''Video not found''))
      | Some videoIndex \<Rightarrow>
          (case delete_file fault (filename (videos st ! videoIndex)) st of
             (st1, es1, Some e) \<Rightarrow> (st1, es1, error_middleware e)
           | (st1, es1, None) \<Rightarrow>
               (case broadcast env (video_deleted_event videoId)
                       (st1\<lparr>videos := splice1 videoIndex (videos st1)\<rparr>) of
                  (st2, es2, Some e) \<Rightarrow> (st2, es1 @ es2, error_middleware e)
                | (st2, es2, None) \<Rightarrow>
                    (st2, es1 @ es2, Response 200 (JObj
                       [(''success'', JBool True),
                        (''message'', JStr ''Video deleted successfully'')])))))"

section \<open>Local variant: the server as a transition system\<close>

datatype event =
    WsConnection nat
  | WsClose nat
  | WsError nat
  | GetVideos
  | PostUploadVideo sockets upload_request
  | DeleteVideo sockets "string option" string

fun step :: "event \<Rightarrow> state \<Rightarrow> state \<times> effect list \<times> response option" where
  "step (WsConnection ws) st = (on_connection ws st, [], None)"
| "step (WsClose ws) st = (on_close ws st, [], None)"
| "step (WsError ws) st = (on_error ws st, [], None)"
| "step GetVideos st = (case get_videos st of (st1, es, r) \<Rightarrow> (st1, es, Some r))"
| "step (PostUploadVideo env rq) st =
     (case post_upload_video env rq st of (st1, es, r) \<Rightarrow> (st1, es, Some r))"
| "step (DeleteVideo env fault videoId) st =
     (case delete_video env fault videoId st of (st1, es, r) \<Rightarrow> (st1, es, Some r))"

fun run :: "event list \<Rightarrow> state \<Rightarrow> state" where
  "run [] st = st"
| "run (ev # evs) st = run evs (fst (step ev st))"

text \<open>The effects of a run, in order.\<close>

fun run_effects :: "event list \<Rightarrow> state \<Rightarrow> effect list" where
  "run_effects [] st = []"
| "run_effects (ev # evs) st = fst (snd (step ev st)) @ run_effects evs (fst (step ev st))"

definition init :: "string list \<Rightarrow> state" where
  "init fs = \<lparr>videos = [], clients = [], files = fs\<rparr>"

section \<open>Cloud variant (server.js, lines 205-369)\<close>

text \<open>
  The cloud variant keeps no catalog: its only state is the \<^verbatim>\<open>clients\<close> set. The storage
  provider is outside the program; what it answers is a parameter of each request.
\<close>

record cloud_state =
  cloud_clients :: "nat list"

record resource =
  public_id :: string
  resource_filename :: string
  secure_url :: string
  bytes :: nat
  format :: string
  created_at :: string

record cloud_upload_request =
  cloud_file_field :: "part option"
  provider_upload :: "exn + (string \<times> string \<times> nat)"
  cloud_iso_now :: string

definition cloud_broadcast ::
    "sockets \<Rightarrow> json \<Rightarrow> cloud_state \<Rightarrow> cloud_state \<times> effect list \<times> exn option" where
  "cloud_broadcast env data st = (st, forEach_send env data (cloud_clients st), None)"

text \<open>
  The cloud variant installs no error middleware: an error passed on by the multipart
  middleware reaches the framework's default handler, which answers 500 with a page
  that is not JSON (left as \<open>JNull\<close> here).
\<close>

definition default_error_handler :: "exn \<Rightarrow> response" where
  "default_error_handler error = Response 500 JNull"

text \<open>
  \<^verbatim>\<open>upload.single('video')\<close> with the provider's storage engine (lines 224-238): there
  is no \<^verbatim>\<open>fileFilter\<close>; a part within the size limit is handed to the provider, whose
  answer completes \<^verbatim>\<open>req.file\<close> (\<^verbatim>\<open>filename\<close> the public id, \<^verbatim>\<open>path\<close> the URL).
\<close>

definition cloud_upload_single ::
    "cloud_upload_request \<Rightarrow> exn \<times> effect list + effect list \<times> req_file option" where
  "cloud_upload_single rq =
     (case cloud_file_field rq of
        None \<Rightarrow> Inr ([], None)
      | Some file \<Rightarrow>
          if fileSize_limit < part_size file then Inl (MulterError ''LIMIT_FILE_SIZE'', [])
          else (case provider_upload rq of
                  Inl e \<Rightarrow> Inl (e, [ProviderUpload (originalname file)])
                | Inr (pid, purl, n) \<Rightarrow>
                    Inr ([ProviderUpload (originalname file)],
                         Some \<lparr>originalname = originalname file,
                               part_mimetype = part_mimetype file,
                               part_size = n,
                               file_filename = pid,
                               file_path = purl\<rparr>)))"

definition cloud_videoData :: "cloud_upload_request \<Rightarrow> req_file \<Rightarrow> json" where
  "cloud_videoData rq file = JObj
     [(''id'', JStr (file_filename file)),
      (''name'', JStr (originalname file)),
      (''url'', JStr (file_path file)),
      (''size'', JNum (part_size file)),
      (''mimetype'', JStr (part_mimetype file)),
      (''timestamp'', JStr (cloud_iso_now rq))]"

definition cloud_upload_video_handler ::
    "sockets \<Rightarrow> cloud_upload_request \<Rightarrow> req_file option \<Rightarrow> cloud_state
      \<Rightarrow> cloud_state \<times> effect list \<times> response" where
  "cloud_upload_video_handler env rq file_opt st =
     (case file_opt of
        None \<Rightarrow> (st, [], Response 400 (error_body ''No video file uploaded''))
      | Some file \<Rightarrow>
          (case cloud_broadcast env
                  (JObj [(''type'', JStr ''new_video''), (''video'', cloud_videoData rq file)]) st of
             (st1, es, None) \<Rightarrow>
               (st1, es, Response 200 (JObj
                  [(''success'', JBool True),
                   (''message'', JStr ''Video uploaded successfully''),
                   (''video'', cloud_videoData rq file)]))
           | (st1, es, Some e) \<Rightarrow>
               (st1, es, Response 500 (error_body ''Failed to upload video''))))"

definition cloud_post_upload_video ::
    "sockets \<Rightarrow> cloud_upload_request \<Rightarrow> cloud_state \<Rightarrow> cloud_state \<times> effect list \<times> response" where
  "cloud_post_upload_video env rq st =
     (case cloud_upload_single rq of
        Inl (e, es) \<Rightarrow> (st, es, default_error_handler e)
      | Inr (es1, file_opt) \<Rightarrow>
          (case cloud_upload_video_handler env rq file_opt st of
             (st1, es2, resp) \<Rightarrow> (st1, es1 @ es2, resp)))"

text \<open>Lines 273-296: the listing is the provider's answer to a fixed query.\<close>

definition videos_query :: search_query where
  "videos_query =
     \<lparr>expression = ''resource_type:video AND folder=harsh-resource-hub-videos'',
      sort_by = (''created_at'', ''desc''),
      max_results = 30\<rparr>"

definition resource_json :: "resource \<Rightarrow> json" where
  "resource_json v = JObj
     [(''id'', JStr (public_id v)),
      (''name'', JStr (resource_filename v)),
      (''url'', JStr (secure_url v)),
      (''size'', JNum (bytes v)),
      (''mimetype'', JStr (''video/'' @ format v)),
      (''timestamp'', JStr (created_at v))]"

definition cloud_get_videos ::
    "(search_query \<Rightarrow> exn + resource list) \<Rightarrow> cloud_state
      \<Rightarrow> cloud_state \<times> effect list \<times> response" where
  "cloud_get_videos execute st =
     (case execute videos_query of
        Inr resources \<Rightarrow>
          (st, [ProviderSearch videos_query], Response 200 (JArr (map resource_json resources)))
      | Inl e \<Rightarrow>
          (st, [ProviderSearch videos_query], Response 500 (error_body ''Failed to fetch videos'')))"

text \<open>
  Lines 332-355: \<^verbatim>\<open>destroy_result\<close> is the provider's answer, a rejection or the
  string \<^verbatim>\<open>result.result\<close>.
\<close>

definition cloud_delete_video ::
    "sockets \<Rightarrow> string \<Rightarrow> exn + string \<Rightarrow> cloud_state
      \<Rightarrow> cloud_state \<times> effect list \<times> response" where
  "cloud_delete_video env videoId destroy_result st =
     (case destroy_result of
        Inl e \<Rightarrow>
          (st, [ProviderDestroy videoId], Response 500 (error_body ''Failed to delete video''))
      | Inr result \<Rightarrow>
          if result = ''ok'' \<or> result = ''not found'' then
            (case cloud_broadcast env (video_deleted_event videoId) st of
               (st1, es, None) \<Rightarrow>
                 (st1, ProviderDestroy videoId # es, Response 200 (JObj
                    [(''success'', JBool True),
                     (''message'', JStr ''Video deleted successfully'')]))
             | (st1, es, Some e) \<Rightarrow>
                 (st1, ProviderDestroy videoId # es,
                  Response 500 (error_body ''Failed to delete video'')))
          else
            (st, [ProviderDestroy videoId], Response 500 (error_body ''Failed to delete video'')))"

section \<open>Notions used to state the properties\<close>

text \<open>The effects that are a call of \<^verbatim>\<open>unlinkSync\<close>, and those that are a call of \<^verbatim>\<open>send\<close>.\<close>

fun is_Unlink :: "effect \<Rightarrow> bool" where
  "is_Unlink (Unlink p) = True"
| "is_Unlink e = False"

fun is_Send :: "effect \<Rightarrow> bool" where
  "is_Send (Send c m) = True"
| "is_Send e = False"

text \<open>
  An upload request is accepted when the multipart middleware stores its file and calls
  the handler with it: there is a file part, it passes the file filter, it is within the
  size limit and the disk write succeeds. The record an accepted request inserts is the
  handler's \<^verbatim>\<open>videoData\<close>; \<open>inserted_by\<close> lists the records that a sequence of events
  inserts, oldest first.
\<close>

definition accepted :: "upload_request \<Rightarrow> bool" where
  "accepted rq =
     (case file_field rq of
        None \<Rightarrow> False
      | Some file \<Rightarrow>
          prefix ''video/'' (part_mimetype file) \<and> part_size file \<le> fileSize_limit
          \<and> disk_error rq = None)"

definition inserted :: "upload_request \<Rightarrow> video option" where
  "inserted rq =
     (case file_field rq of
        None \<Rightarrow> None
      | Some file \<Rightarrow> if accepted rq then Some (videoData rq (disk_file rq file)) else None)"

fun inserted_by :: "event list \<Rightarrow> video list" where
  "inserted_by [] = []"
| "inserted_by (PostUploadVideo env rq # evs) =
     (case inserted rq of None \<Rightarrow> inserted_by evs | Some v \<Rightarrow> v # inserted_by evs)"
| "inserted_by (ev # evs) = inserted_by evs"

fun is_insertion :: "event \<Rightarrow> bool" where
  "is_insertion (PostUploadVideo env rq) = accepted rq"
| "is_insertion ev = False"

text \<open>
  The order of a listing by its \<^verbatim>\<open>timestamp\<close> fields, latest first; the timestamps of the
  provider are ISO 8601 strings of one format, which the order of strings compares by
  time. An answer of the provider keeps to the query when it has at most
  \<^verbatim>\<open>max_results\<close> resources and, for a query sorted by \<^verbatim>\<open>created_at\<close> descending, has
  them latest first.
\<close>

fun timestamp_of :: "json \<Rightarrow> string" where
  "timestamp_of (JObj kvs) = (case map_of kvs ''timestamp'' of Some (JStr t) \<Rightarrow> t | _ \<Rightarrow> [])"
| "timestamp_of _ = []"

definition newest_first :: "json list \<Rightarrow> bool" where
  "newest_first js = sorted_wrt (\<lambda>a b. timestamp_of b \<le> timestamp_of a) js"

definition keeps_to :: "search_query \<Rightarrow> resource list \<Rightarrow> bool" where
  "keeps_to q rs =
     (length rs \<le> max_results q
      \<and> (sort_by q = (''created_at'', ''desc'') \<longrightarrow>
           sorted_wrt (\<lambda>a b. created_at b \<le> created_at a) rs))"

section \<open>Concrete inputs\<close>

text \<open>Sockets: open, open with a peer that is gone, closed.\<close>

definition open_socket :: socket where
  "open_socket = \<lparr>readyState = OPEN, send_fails = False\<rparr>"

definition dead_peer_socket :: socket where
  "dead_peer_socket = \<lparr>readyState = OPEN, send_fails = True\<rparr>"

definition closed_socket :: socket where
  "closed_socket = \<lparr>readyState = CLOSED, send_fails = False\<rparr>"

definition env_open :: sockets where
  "env_open = (\<lambda>ws. open_socket)"

definition env_dead_peer :: sockets where
  "env_dead_peer = (\<lambda>ws. dead_peer_socket)"

definition env_first_open :: sockets where
  "env_first_open = (\<lambda>ws. if ws = 0 then open_socket else closed_socket)"

text \<open>
  Upload requests of the local variant: a ten-byte video read at clock time \<open>t\<close>, the
  same request with a part of MIME type \<^verbatim>\<open>text/plain\<close>, with a disk that is full, and
  with a file that the system refuses to remove.
\<close>

definition sample_part :: part where
  "sample_part = \<lparr>originalname = ''clip.mp4'', part_mimetype = ''video/mp4'', part_size = 10\<rparr>"

definition text_part :: part where
  "text_part = \<lparr>originalname = ''notes.mp4'', part_mimetype = ''text/plain'', part_size = 10\<rparr>"

definition sample_request :: "nat \<Rightarrow> upload_request" where
  "sample_request t =
     \<lparr>file_field = Some sample_part, body_timestamp = None, now_filename = t, random = 7,
      extname = ''.mp4'', now_id = t, iso_now = ''2024-01-01T00:00:00.000Z'',
      disk_error = None, unlink_error = None\<rparr>"

definition text_request :: upload_request where
  "text_request = (sample_request 5)\<lparr>file_field := Some text_part\<rparr>"


definition unlink_failure_request :: upload_request where
  "unlink_failure_request = (sample_request 21)\<lparr>unlink_error := Some ''EPERM''\<rparr>"

text \<open>
  Runs of the local server: 21 uploads at the times 0 to 20, two uploads in the same
  millisecond, and the states after 20 uploads, after two uploads and after one or two
  connections.
\<close>

definition sample_uploads :: "event list" where
  "sample_uploads = map (\<lambda>t. PostUploadVideo env_open (sample_request t)) [0..<21]"

definition same_ms_uploads :: "event list" where
  "same_ms_uploads =
     [PostUploadVideo env_open (sample_request 5),
      PostUploadVideo env_open ((sample_request 5)\<lparr>random := 8\<rparr>)]"

definition full_catalog :: state where
  "full_catalog = run (butlast sample_uploads) (init [])"

definition two_videos :: state where
  "two_videos = run (take 2 sample_uploads) (init [])"

definition one_client :: state where
  "one_client = on_connection 0 (init [])"

definition two_clients :: state where
  "two_clients = on_connection 1 (on_connection 0 (init []))"

text \<open>
  The cloud variant: states, an upload the provider accepts and one it refuses, and two
  providers.
\<close>

definition cloud_one_client :: cloud_state where
  "cloud_one_client = \<lparr>cloud_clients = [0]\<rparr>"

definition cloud_two_clients :: cloud_state where
  "cloud_two_clients = \<lparr>cloud_clients = [0, 1]\<rparr>"

definition cloud_text_request :: cloud_upload_request where
  "cloud_text_request =
     \<lparr>cloud_file_field = Some text_part,
      provider_upload = Inr (''harsh-resource-hub-videos/notes'', ''https://cdn.example/notes.mp4'', 10),
      cloud_iso_now = ''2024-01-01T00:00:00.000Z''\<rparr>"

definition cloud_refused_request :: cloud_upload_request where
  "cloud_refused_request =
     cloud_text_request\<lparr>provider_upload := Inl (Error ''Unsupported video format or file'')\<rparr>"

definition newer_resource :: resource where
  "newer_resource =
     \<lparr>public_id = ''harsh-resource-hub-videos/b'', resource_filename = ''b'',
      secure_url = ''https://cdn.example/b.mp4'', bytes = 20, format = ''mp4'',
      created_at = ''2024-01-02T00:00:00Z''\<rparr>"

definition older_resource :: resource where
  "older_resource =
     \<lparr>public_id = ''harsh-resource-hub-videos/a'', resource_filename = ''a'',
      secure_url = ''https://cdn.example/a.mp4'', bytes = 10, format = ''mp4'',
      created_at = ''2024-01-01T00:00:00Z''\<rparr>"

definition sample_execute :: "search_query \<Rightarrow> exn + resource list" where
  "sample_execute q = Inr (take (max_results q) [newer_resource, older_resource])"

definition failing_execute :: "search_query \<Rightarrow> exn + resource list" where
  "failing_execute q = Inl (Error ''timeout'')"

section \<open>Properties\<close>

subsection \<open>The bounded catalog\<close>

lemma keep_last_20_eq:
  "keep_last_20 fault st =
     (if 20 < length (videos st) then
        (if filename (last (videos st)) \<in> set (files st) then
           (case fault of
              None \<Rightarrow>
                (st\<lparr>videos := butlast (videos st),
                    files := removeAll (filename (last (videos st))) (files st)\<rparr>,
                 [Unlink (filename (last (videos st)))], None)
            | Some code \<Rightarrow>
                (st\<lparr>videos := butlast (videos st)\<rparr>,
                 [Unlink (filename (last (videos st)))], Some (Error code)))
         else (st\<lparr>videos := butlast (videos st)\<rparr>, [], None))
      else (st, [], None))"
  by (auto simp: keep_last_20_def pop_def existsSync_def unlinkSync_def split: option.splits)

lemma keep_last_20_videos:
  "videos (fst (keep_last_20 fault st))
     = (if 20 < length (videos st) then butlast (videos st) else videos st)"
  by (simp add: keep_last_20_eq split: option.splits)

lemma keep_last_20_clients: "clients (fst (keep_last_20 fault st)) = clients st"
  by (simp add: keep_last_20_eq split: option.splits)

lemma broadcast_eq: "broadcast env d st = (st, forEach_send env d (clients st), None)"
  by (simp add: broadcast_def)

lemma upload_single_accepted:
  "accepted rq \<Longrightarrow> file_field rq = Some file \<Longrightarrow>
     upload_single rq st =
       Inr (st\<lparr>files := List.insert (uniqueName rq) (files st)\<rparr>,
            [WriteFile (uniqueName rq)], Some (disk_file rq file))"
  by (simp add: accepted_def upload_single_def fileFilter_def)

lemma upload_single_not_accepted:
  "\<not> accepted rq \<Longrightarrow> file_field rq = Some file \<Longrightarrow> \<exists>e. upload_single rq st = Inl e"
  by (auto simp: accepted_def upload_single_def fileFilter_def split: option.splits)

lemma upload_single_no_file:
  "file_field rq = None \<Longrightarrow> upload_single rq st = Inr (st, [], None)"
  by (simp add: upload_single_def)

lemma upload_try_eq:
  "upload_try env rq file st =
     (case keep_last_20 (unlink_error rq) (st\<lparr>videos := videoData rq file # videos st\<rparr>) of
        (st1, es1, Some e) \<Rightarrow> (st1, es1, Some e)
      | (st1, es1, None) \<Rightarrow>
          (st1, es1 @ forEach_send env (new_video_event (videoData rq file)) (clients st1), None))"
  by (simp add: upload_try_def broadcast_eq split: prod.splits option.splits)

lemma upload_try_videos:
  "videos (fst (upload_try env rq file st))
     = (if 20 \<le> length (videos st) then butlast (videoData rq file # videos st)
        else videoData rq file # videos st)"
  using keep_last_20_videos[of "unlink_error rq" "st\<lparr>videos := videoData rq file # videos st\<rparr>"]
  by (auto simp: upload_try_eq split: prod.splits option.splits)

lemma upload_try_clients: "clients (fst (upload_try env rq file st)) = clients st"
  using keep_last_20_clients[of "unlink_error rq" "st\<lparr>videos := videoData rq file # videos st\<rparr>"]
  by (auto simp: upload_try_eq split: prod.splits option.splits)

lemma post_upload_video_accepted_fst:
  assumes "accepted rq" and "file_field rq = Some p"
  shows "fst (post_upload_video env rq st)
     = fst (upload_try env rq (disk_file rq p)
         (st\<lparr>files := List.insert (uniqueName rq) (files st)\<rparr>))"
  using assms
  by (simp add: post_upload_video_def upload_single_accepted upload_video_handler_def
      split: prod.splits option.splits)

lemma post_upload_video_videos:
  "videos (fst (post_upload_video env rq st)) =
     (case inserted rq of
        None \<Rightarrow> videos st
      | Some v \<Rightarrow> if 20 \<le> length (videos st) then butlast (v # videos st) else v # videos st)"
proof (cases "file_field rq")
  case None
  then show ?thesis
    by (simp add: post_upload_video_def upload_single_no_file upload_video_handler_def
        inserted_def)
next
  case (Some p)
  show ?thesis
  proof (cases "accepted rq")
    case True
    with Some show ?thesis
      by (simp add: post_upload_video_accepted_fst upload_try_videos inserted_def)
  next
    case False
    with Some upload_single_not_accepted[OF False Some, of st] show ?thesis
      by (auto simp: post_upload_video_def inserted_def)
  qed
qed

lemma post_upload_video_videos_take:
  "length (videos st) \<le> 20 \<Longrightarrow>
   videos (fst (post_upload_video env rq st)) =
     (case inserted rq of None \<Rightarrow> videos st | Some v \<Rightarrow> take 20 (v # videos st))"
  by (simp add: post_upload_video_videos butlast_conv_take split: option.splits)

lemma findIndex_Some:
  "findIndex p xs = Some i \<Longrightarrow> i < length xs \<and> p (xs ! i) \<and> (\<forall>j<i. \<not> p (xs ! j))"
proof (induction xs arbitrary: i)
  case Nil
  then show ?case by simp
next
  case (Cons x xs)
  then show ?case
    by (auto split: if_splits option.splits simp: nth_Cons less_Suc_eq_0_disj)
qed

lemma findIndex_None: "findIndex p xs = None \<longleftrightarrow> (\<forall>x\<in>set xs. \<not> p x)"
  by (induction xs) (auto split: option.splits)

lemma delete_file_eq:
  "delete_file fault p st =
     (if p \<in> set (files st) then
        (case fault of
           None \<Rightarrow> (st\<lparr>files := removeAll p (files st)\<rparr>, [Unlink p], None)
         | Some code \<Rightarrow> (st, [Unlink p], Some (Error code)))
      else (st, [], None))"
  by (simp add: delete_file_def existsSync_def unlinkSync_def split: option.splits)

lemma delete_video_found:
  assumes "findIndex (\<lambda>v. id_v v = videoId) (videos st) = Some k"
  shows "delete_video env fault videoId st =
     (if filename (videos st ! k) \<in> set (files st) \<and> fault \<noteq> None then
        (st, [Unlink (filename (videos st ! k))],
         Response 500 (error_body ''Internal server error''))
      else
        (st\<lparr>files := removeAll (filename (videos st ! k)) (files st),
            videos := splice1 k (videos st)\<rparr>,
         (if filename (videos st ! k) \<in> set (files st)
          then [Unlink (filename (videos st ! k))] else [])
           @ forEach_send env (video_deleted_event videoId) (clients st),
         Response 200 (JObj
           [(''success'', JBool True),
            (''message'', JStr ''Video deleted successfully'')])))"
  using assms
  by (auto simp: delete_video_def delete_file_eq broadcast_eq error_middleware_def
      split: option.splits prod.splits)

lemma delete_video_not_found:
  assumes "findIndex (\<lambda>v. id_v v = videoId) (videos st) = None"
  shows "delete_video env fault videoId st
     = (st, [], Response 404 (error_body ''Video not found''))"
  using assms by (simp add: delete_video_def)

lemma delete_video_videos:
  "videos (fst (delete_video env fault videoId st)) = videos st
   \<or> (\<exists>k. findIndex (\<lambda>v. id_v v = videoId) (videos st) = Some k
         \<and> videos (fst (delete_video env fault videoId st)) = splice1 k (videos st))"
proof (cases "findIndex (\<lambda>v. id_v v = videoId) (videos st)")
  case None
  then show ?thesis by (simp add: delete_video_not_found)
next
  case (Some k)
  then show ?thesis by (simp add: delete_video_found)
qed

lemma length_splice1: "i < length xs \<Longrightarrow> Suc (length (splice1 i xs)) = length xs"
  by (simp add: splice1_def)

lemma fst_step:
  "fst (step (WsConnection ws) st) = on_connection ws st"
  "fst (step (WsClose ws) st) = on_close ws st"
  "fst (step (WsError ws) st) = on_error ws st"
  "fst (step GetVideos st) = st"
  "fst (step (PostUploadVideo env rq) st) = fst (post_upload_video env rq st)"
  "fst (step (DeleteVideo env fault videoId) st) = fst (delete_video env fault videoId st)"
  by (simp_all add: case_prod_beta get_videos_def)

lemma step_cap:
  assumes "length (videos st) \<le> 20"
  shows "length (videos (fst (step ev st))) \<le> 20"
proof (cases ev)
  case (PostUploadVideo env rq)
  with assms show ?thesis
    by (simp add: fst_step post_upload_video_videos_take del: step.simps split: option.splits)
next
  case (DeleteVideo env fault videoId)
  from delete_video_videos[of env fault videoId st] show ?thesis
  proof
    assume "videos (fst (delete_video env fault videoId st)) = videos st"
    with assms DeleteVideo show ?thesis
      by (simp add: fst_step del: step.simps)
  next
    assume "\<exists>k. findIndex (\<lambda>v. id_v v = videoId) (videos st) = Some k
         \<and> videos (fst (delete_video env fault videoId st)) = splice1 k (videos st)"
    then obtain k where k: "findIndex (\<lambda>v. id_v v = videoId) (videos st) = Some k"
      and v: "videos (fst (delete_video env fault videoId st)) = splice1 k (videos st)"
      by blast
    from k have "k < length (videos st)"
      using findIndex_Some[of "\<lambda>v. id_v v = videoId" "videos st" k] by simp
    then have "length (splice1 k (videos st)) \<le> length (videos st)"
      using length_splice1[of k "videos st"] by simp
    with assms v DeleteVideo show ?thesis
      by (simp add: fst_step del: step.simps)
  qed
qed (use assms in \<open>simp_all add: fst_step on_connection_def on_close_def on_error_def del: step.simps\<close>)

lemma run_cap: "length (videos st) \<le> 20 \<Longrightarrow> length (videos (run evs st)) \<le> 20"
  by (induction evs arbitrary: st) (simp_all add: step_cap)

lemma take_append_take: "take n (xs @ take n ys) = take n (xs @ ys)"
  by simp

lemma run_insertions:
  "length (videos st) \<le> 20 \<Longrightarrow> \<forall>ev\<in>set evs. is_insertion ev \<Longrightarrow>
   videos (run evs st) = take 20 (rev (inserted_by evs) @ videos st)"
proof (induction evs arbitrary: st)
  case Nil
  then show ?case by simp
next
  case (Cons ev evs)
  from Cons.prems obtain env rq where ev: "ev = PostUploadVideo env rq" and acc: "accepted rq"
    by (cases ev) auto
  from acc obtain p where p: "file_field rq = Some p"
    by (auto simp: accepted_def split: option.splits)
  define v where "v = videoData rq (disk_file rq p)"
  have ins: "inserted rq = Some v"
    using acc p by (simp add: inserted_def v_def)
  define st1 where "st1 = fst (step ev st)"
  have v1: "videos st1 = take 20 (v # videos st)"
    using Cons.prems(1) ins
    by (simp add: st1_def ev fst_step post_upload_video_videos_take del: step.simps)
  then have "length (videos st1) \<le> 20" by simp
  then have "videos (run evs st1) = take 20 (rev (inserted_by evs) @ videos st1)"
    using Cons.prems(2) by (intro Cons.IH) simp_all
  also have "\<dots> = take 20 (rev (inserted_by evs) @ (v # videos st))"
    unfolding v1 by (rule take_append_take)
  finally show ?case
    by (simp add: ev ins st1_def del: step.simps)
qed

lemma length_inserted_by:
  "\<forall>ev\<in>set evs. is_insertion ev \<Longrightarrow> length (inserted_by evs) = length evs"
proof (induction evs)
  case Nil
  then show ?case by simp
next
  case (Cons ev evs)
  then show ?case
    by (cases ev) (auto simp: inserted_def accepted_def split: option.splits)
qed

lemma post_upload_video_clients: "clients (fst (post_upload_video env rq st)) = clients st"
proof (cases "file_field rq")
  case None
  then show ?thesis
    by (simp add: post_upload_video_def upload_single_no_file upload_video_handler_def)
next
  case (Some p)
  show ?thesis
  proof (cases "accepted rq")
    case True
    with Some show ?thesis
      by (simp add: post_upload_video_accepted_fst upload_try_clients)
  next
    case False
    with Some upload_single_not_accepted[OF False Some, of st] show ?thesis
      by (auto simp: post_upload_video_def)
  qed
qed

lemma delete_video_clients: "clients (fst (delete_video env fault videoId st)) = clients st"
proof (cases "findIndex (\<lambda>v. id_v v = videoId) (videos st)")
  case None
  then show ?thesis by (simp add: delete_video_not_found)
next
  case (Some k)
  then show ?thesis by (simp add: delete_video_found)
qed

lemma step_clients:
  "clients (fst (step ev st)) =
     (case ev of
        WsConnection ws \<Rightarrow> set_add ws (clients st)
      | WsClose ws \<Rightarrow> set_delete ws (clients st)
      | WsError ws \<Rightarrow> set_delete ws (clients st)
      | _ \<Rightarrow> clients st)"
  by (cases ev)
    (simp_all add: fst_step on_connection_def on_close_def on_error_def
      post_upload_video_clients delete_video_clients del: step.simps)

lemma run_insertions_clients:
  "\<forall>ev\<in>set evs. is_insertion ev \<Longrightarrow> clients (run evs st) = clients st"
proof (induction evs arbitrary: st)
  case Nil
  then show ?case by simp
next
  case (Cons ev evs)
  from Cons.prems obtain env rq where ev: "ev = PostUploadVideo env rq"
    by (cases ev) auto
  have "clients (run evs (fst (step ev st))) = clients (fst (step ev st))"
    using Cons.prems by (intro Cons.IH) simp
  then show ?case
    by (simp add: ev step_clients del: step.simps)
qed

text \<open>
  Claim C1. After more than 20 insertions into the catalog of the local variant, each an
  accepted upload putting its record at the front, the listing holds exactly 20 records:
  the 20 inserted last, newest first. Whatever the requests and socket events, the
  catalog of the running server never holds more than 20 records between two of them.
\<close>

theorem catalog_keeps_20_newest:
  "(length (videos st) \<le> 20 \<and> 20 < length evs \<and> (\<forall>ev\<in>set evs. is_insertion ev) \<longrightarrow>
      length (inserted_by evs) = length evs
      \<and> videos (run evs st) = take 20 (rev (inserted_by evs))
      \<and> length (videos (run evs st)) = 20
      \<and> snd (snd (get_videos (run evs st)))
          = Response 200 (JArr (map video_json (take 20 (rev (inserted_by evs))))))
   \<and> length (videos (run evs' (init fs))) \<le> 20"
proof (intro conjI impI)
  assume h: "length (videos st) \<le> 20 \<and> 20 < length evs \<and> (\<forall>ev\<in>set evs. is_insertion ev)"
  then show len: "length (inserted_by evs) = length evs"
    by (simp add: length_inserted_by)
  from h have "videos (run evs st) = take 20 (rev (inserted_by evs) @ videos st)"
    by (simp add: run_insertions)
  with h len show v: "videos (run evs st) = take 20 (rev (inserted_by evs))"
    by simp
  from v h len show "length (videos (run evs st)) = 20"
    by simp
  from v show "snd (snd (get_videos (run evs st)))
      = Response 200 (JArr (map video_json (take 20 (rev (inserted_by evs)))))"
    by (simp add: get_videos_def)
next
  show "length (videos (run evs' (init fs))) \<le> 20"
    by (rule run_cap) (simp add: init_def)
qed

lemma sample_request_accepted: "accepted (sample_request t)"
  by (simp add: accepted_def sample_request_def sample_part_def fileSize_limit_def)

lemma sample_request_file: "file_field (sample_request t) = Some sample_part"
  by (simp add: sample_request_def)

lemma sample_uploads_insertions: "\<forall>ev\<in>set sample_uploads. is_insertion ev"
  by (simp add: sample_uploads_def sample_request_accepted)

theorem catalog_keeps_20_newest_witness:
  "length (videos (init [])) \<le> 20 \<and> 20 < length sample_uploads
   \<and> list_all is_insertion sample_uploads
   \<and> videos (run sample_uploads (init [])) = take 20 (rev (inserted_by sample_uploads))
   \<and> length (videos (run sample_uploads (init []))) = 20"
proof -
  have h: "length (videos (init [])) \<le> 20 \<and> 20 < length sample_uploads
      \<and> (\<forall>ev\<in>set sample_uploads. is_insertion ev)"
    using sample_uploads_insertions by (simp add: init_def sample_uploads_def)
  with catalog_keeps_20_newest [of "init []" sample_uploads] show ?thesis
    by (simp add: list_all_iff)
qed

subsection \<open>Eviction\<close>

lemma forEach_send_eq:
  "forEach_send env m cs = map (\<lambda>c. Send c m) (filter (\<lambda>c. readyState (env c) = OPEN) cs)"
  by (induction cs) simp_all

lemma filter_Unlink_sends: "filter is_Unlink (map (\<lambda>c. Send c m) cs) = []"
  by (induction cs) simp_all

lemma filter_Send_sends: "filter is_Send (map (\<lambda>c. Send c m) cs) = map (\<lambda>c. Send c m) cs"
  by (induction cs) simp_all

lemma upload_try_full:
  assumes "20 \<le> length (videos st)"
  shows "upload_try env rq file st =
     (if filename (last (videos st)) \<in> set (files st) then
        (case unlink_error rq of
           None \<Rightarrow>
             (st\<lparr>videos := videoData rq file # butlast (videos st),
                 files := removeAll (filename (last (videos st))) (files st)\<rparr>,
              Unlink (filename (last (videos st)))
                # map (\<lambda>c. Send c (new_video_event (videoData rq file)))
                    (filter (\<lambda>c. readyState (env c) = OPEN) (clients st)),
              None)
         | Some code \<Rightarrow>
             (st\<lparr>videos := videoData rq file # butlast (videos st)\<rparr>,
              [Unlink (filename (last (videos st)))], Some (Error code)))
      else
        (st\<lparr>videos := videoData rq file # butlast (videos st)\<rparr>,
         map (\<lambda>c. Send c (new_video_event (videoData rq file)))
           (filter (\<lambda>c. readyState (env c) = OPEN) (clients st)),
         None))"
proof -
  from assms have "videos st \<noteq> []" by auto
  with assms show ?thesis
    by (simp add: upload_try_eq keep_last_20_eq forEach_send_eq split: option.splits)
qed

lemma upload_try_room:
  assumes "length (videos st) < 20"
  shows "upload_try env rq file st =
     (st\<lparr>videos := videoData rq file # videos st\<rparr>,
      map (\<lambda>c. Send c (new_video_event (videoData rq file)))
        (filter (\<lambda>c. readyState (env c) = OPEN) (clients st)),
      None)"
  using assms by (simp add: upload_try_eq keep_last_20_eq forEach_send_eq)

lemma post_upload_video_accepted:
  assumes "accepted rq" and "file_field rq = Some p"
  shows "post_upload_video env rq st =
     (case upload_try env rq (disk_file rq p)
             (st\<lparr>files := List.insert (uniqueName rq) (files st)\<rparr>) of
        (st1, es, None) \<Rightarrow>
          (st1, WriteFile (uniqueName rq) # es,
           Response 200 (JObj
             [(''success'', JBool True),
              (''message'', JStr ''Video uploaded successfully''),
              (''video'', video_json (videoData rq (disk_file rq p)))]))
      | (st1, es, Some e) \<Rightarrow>
          (st1, WriteFile (uniqueName rq) # es,
           Response 500 (error_body ''Failed to upload video'')))"
  using assms
  by (simp add: post_upload_video_def upload_single_accepted upload_video_handler_def
      split: prod.splits option.splits)

lemma filename_videoData: "filename (videoData rq (disk_file rq p)) = uniqueName rq"
  by (simp add: videoData_def disk_file_def)

text \<open>
  Claim C2, as the code has it. An accepted upload writes its file under the name its
  record carries. When it finds the catalog full, its record goes to the front and exactly
  one record, the one at the tail, leaves the catalog; the eviction is handled once:
  \<^verbatim>\<open>unlinkSync\<close> is called once, on the file of the evicted record, when that file
  exists, and not at all otherwise. When the call succeeds the file is gone and the
  answer is 200; when the system refuses it the file stays, nothing is broadcast and the
  answer is 500 with \<^verbatim>\<open>Failed to upload video\<close>, the change of the catalog standing. An
  upload that finds room evicts nothing and unlinks nothing. The insertion into the
  catalog takes effect in every case.
\<close>

theorem insert_evicts_oldest_once:
  assumes "accepted rq" and "file_field rq = Some p"
  shows
   "filename (videoData rq (disk_file rq p)) = uniqueName rq
    \<and> hd (fst (snd (post_upload_video env rq st))) = WriteFile (uniqueName rq)
    \<and> (20 \<le> length (videos st) \<longrightarrow>
         videos (fst (post_upload_video env rq st))
           = videoData rq (disk_file rq p) # butlast (videos st)
       \<and> videos (fst (post_upload_video env rq st)) @ [last (videos st)]
           = videoData rq (disk_file rq p) # videos st
       \<and> filter is_Unlink (fst (snd (post_upload_video env rq st)))
           = (if filename (last (videos st)) \<in> set (List.insert (uniqueName rq) (files st))
              then [Unlink (filename (last (videos st)))] else [])
       \<and> (unlink_error rq = None
            \<or> filename (last (videos st)) \<notin> set (List.insert (uniqueName rq) (files st)) \<longrightarrow>
              files (fst (post_upload_video env rq st))
                = removeAll (filename (last (videos st)))
                    (List.insert (uniqueName rq) (files st))
            \<and> filename (last (videos st)) \<notin> set (files (fst (post_upload_video env rq st)))
            \<and> snd (snd (post_upload_video env rq st))
                = Response 200 (JObj
                    [(''success'', JBool True),
                     (''message'', JStr ''Video uploaded successfully''),
                     (''video'', video_json (videoData rq (disk_file rq p)))]))
       \<and> (unlink_error rq \<noteq> None
            \<and> filename (last (videos st)) \<in> set (List.insert (uniqueName rq) (files st)) \<longrightarrow>
              files (fst (post_upload_video env rq st)) = List.insert (uniqueName rq) (files st)
            \<and> filter is_Send (fst (snd (post_upload_video env rq st))) = []
            \<and> snd (snd (post_upload_video env rq st))
                = Response 500 (JObj [(''error'', JStr ''Failed to upload video'')])))
    \<and> (length (videos st) < 20 \<longrightarrow>
         videos (fst (post_upload_video env rq st)) = videoData rq (disk_file rq p) # videos st
       \<and> filter is_Unlink (fst (snd (post_upload_video env rq st))) = []
       \<and> files (fst (post_upload_video env rq st)) = List.insert (uniqueName rq) (files st)
       \<and> snd (snd (post_upload_video env rq st))
           = Response 200 (JObj
               [(''success'', JBool True),
                (''message'', JStr ''Video uploaded successfully''),
                (''video'', video_json (videoData rq (disk_file rq p)))]))"
proof (intro conjI impI)
  show "filename (videoData rq (disk_file rq p)) = uniqueName rq"
    by (rule filename_videoData)
  show "hd (fst (snd (post_upload_video env rq st))) = WriteFile (uniqueName rq)"
    by (simp add: post_upload_video_accepted[OF assms] split: prod.splits option.splits)
next
  assume full: "20 \<le> length (videos st)"
  then have ne: "videos st \<noteq> []" by auto
  note eq = post_upload_video_accepted[OF assms, of env st]
    upload_try_full[of "st\<lparr>files := List.insert (uniqueName rq) (files st)\<rparr>" env rq
      "disk_file rq p", simplified, OF full]
  show "videos (fst (post_upload_video env rq st))
           = videoData rq (disk_file rq p) # butlast (videos st)"
    by (simp add: eq split: option.splits)
  show "videos (fst (post_upload_video env rq st)) @ [last (videos st)]
           = videoData rq (disk_file rq p) # videos st"
    using ne by (simp add: eq split: option.splits)
  show "filter is_Unlink (fst (snd (post_upload_video env rq st)))
           = (if filename (last (videos st)) \<in> set (List.insert (uniqueName rq) (files st))
              then [Unlink (filename (last (videos st)))] else [])"
    by (simp add: eq filter_Unlink_sends split: option.splits)
  {
    assume ok: "unlink_error rq = None
        \<or> filename (last (videos st)) \<notin> set (List.insert (uniqueName rq) (files st))"
    then show "files (fst (post_upload_video env rq st))
          = removeAll (filename (last (videos st))) (List.insert (uniqueName rq) (files st))"
      by (auto simp: eq split: option.splits)
    from ok show "filename (last (videos st)) \<notin> set (files (fst (post_upload_video env rq st)))"
      by (auto simp: eq split: option.splits)
    from ok show "snd (snd (post_upload_video env rq st))
          = Response 200 (JObj
              [(''success'', JBool True),
               (''message'', JStr ''Video uploaded successfully''),
               (''video'', video_json (videoData rq (disk_file rq p)))])"
      by (auto simp: eq split: option.splits)
  }
  {
    assume bad: "unlink_error rq \<noteq> None
        \<and> filename (last (videos st)) \<in> set (List.insert (uniqueName rq) (files st))"
    then show "files (fst (post_upload_video env rq st)) = List.insert (uniqueName rq) (files st)"
      by (auto simp: eq split: option.splits)
    from bad show "filter is_Send (fst (snd (post_upload_video env rq st))) = []"
      by (auto simp: eq split: option.splits)
    from bad show "snd (snd (post_upload_video env rq st))
          = Response 500 (JObj [(''error'', JStr ''Failed to upload video'')])"
      by (auto simp: eq error_body_def split: option.splits)
  }
next
  assume room: "length (videos st) < 20"
  note eq = post_upload_video_accepted[OF assms, of env st]
    upload_try_room[of "st\<lparr>files := List.insert (uniqueName rq) (files st)\<rparr>" env rq
      "disk_file rq p", simplified, OF room]
  show "videos (fst (post_upload_video env rq st)) = videoData rq (disk_file rq p) # videos st"
    by (simp add: eq)
  show "filter is_Unlink (fst (snd (post_upload_video env rq st))) = []"
    by (simp add: eq filter_Unlink_sends)
  show "files (fst (post_upload_video env rq st)) = List.insert (uniqueName rq) (files st)"
    by (simp add: eq)
  show "snd (snd (post_upload_video env rq st))
           = Response 200 (JObj
               [(''success'', JBool True),
                (''message'', JStr ''Video uploaded successfully''),
                (''video'', video_json (videoData rq (disk_file rq p)))])"
    by (simp add: eq)
qed

lemma inserted_sample:
  "inserted (sample_request t)
     = Some (videoData (sample_request t) (disk_file (sample_request t) sample_part))"
  by (simp add: inserted_def sample_request_accepted sample_request_file)

lemma inserted_by_sample:
  "inserted_by (map (\<lambda>t. PostUploadVideo env (sample_request t)) ts)
     = map (\<lambda>t. videoData (sample_request t) (disk_file (sample_request t) sample_part)) ts"
  by (induction ts) (simp_all add: inserted_sample)

lemma uniqueName_sample: "uniqueName (sample_request t) = toString t @ ''-7.mp4''"
  by (simp add: uniqueName_def sample_request_def toString.simps)

lemma post_upload_video_room_files:
  assumes "accepted rq" and "length (videos st) < 20"
  shows "files (fst (post_upload_video env rq st)) = List.insert (uniqueName rq) (files st)"
proof -
  from assms(1) obtain p where p: "file_field rq = Some p"
    by (auto simp: accepted_def split: option.splits)
  show ?thesis
    using upload_try_room[of "st\<lparr>files := List.insert (uniqueName rq) (files st)\<rparr>" env rq
        "disk_file rq p"] assms(2)
    by (simp add: post_upload_video_accepted[OF assms(1) p])
qed

lemma run_insertions_files:
  "\<forall>ev\<in>set evs. is_insertion ev \<Longrightarrow> length (videos st) + length evs \<le> 20 \<Longrightarrow>
   set (files (run evs st)) = set (files st) \<union> filename ` set (inserted_by evs)"
proof (induction evs arbitrary: st)
  case Nil
  then show ?case by simp
next
  case (Cons ev evs)
  from Cons.prems obtain env rq where ev: "ev = PostUploadVideo env rq" and acc: "accepted rq"
    by (cases ev) auto
  from acc obtain p where p: "file_field rq = Some p"
    by (auto simp: accepted_def split: option.splits)
  have ins: "inserted rq = Some (videoData rq (disk_file rq p))"
    using acc p by (simp add: inserted_def)
  define st1 where "st1 = fst (post_upload_video env rq st)"
  from Cons.prems(2) have room: "length (videos st) < 20" by simp
  have f1: "files st1 = List.insert (uniqueName rq) (files st)"
    unfolding st1_def using acc room by (rule post_upload_video_room_files)
  have v1: "videos st1 = videoData rq (disk_file rq p) # videos st"
    using room by (simp add: st1_def post_upload_video_videos ins)
  have "set (files (run evs st1)) = set (files st1) \<union> filename ` set (inserted_by evs)"
    using Cons.prems by (intro Cons.IH) (simp_all add: v1)
  then show ?case
    by (auto simp: ev fst_step st1_def[symmetric] f1 ins filename_videoData simp del: step.simps)
qed

lemma butlast_sample_uploads:
  "butlast sample_uploads = map (\<lambda>t. PostUploadVideo env_open (sample_request t)) [0..<20]"
proof -
  have "[0..<21] = [0..<20] @ [20::nat]"
    by (simp add: upt_rec)
  then show ?thesis
    by (simp add: sample_uploads_def del: upt_Suc)
qed

lemma full_catalog_videos:
  "videos full_catalog
     = rev (map (\<lambda>t. videoData (sample_request t) (disk_file (sample_request t) sample_part))
         [0..<20])"
proof -
  have "videos full_catalog
      = take 20 (rev (inserted_by (butlast sample_uploads)) @ videos (init []))"
    unfolding full_catalog_def
    by (rule run_insertions)
      (simp_all add: init_def butlast_sample_uploads sample_request_accepted)
  then show ?thesis
    by (simp add: butlast_sample_uploads inserted_by_sample init_def)
qed

lemma full_catalog_length: "length (videos full_catalog) = 20"
  by (simp add: full_catalog_videos)

lemma full_catalog_oldest: "filename (last (videos full_catalog)) = ''0-7.mp4''"
proof -
  have "last (videos full_catalog)
      = videoData (sample_request 0) (disk_file (sample_request 0) sample_part)"
    by (simp add: full_catalog_videos last_rev hd_map)
  then show ?thesis
    by (simp add: filename_videoData uniqueName_sample toString.simps)
qed

lemma full_catalog_files: "''0-7.mp4'' \<in> set (files full_catalog)"
proof -
  have "set (files full_catalog)
      = set (files (init [])) \<union> filename ` set (inserted_by (butlast sample_uploads))"
    unfolding full_catalog_def
    by (rule run_insertions_files)
      (simp_all add: init_def butlast_sample_uploads sample_request_accepted)
  moreover have "videoData (sample_request 0) (disk_file (sample_request 0) sample_part)
      \<in> set (inserted_by (butlast sample_uploads))"
    by (simp add: butlast_sample_uploads inserted_by_sample)
  moreover have "filename (videoData (sample_request 0) (disk_file (sample_request 0) sample_part))
      = ''0-7.mp4''"
    by (simp add: filename_videoData uniqueName_sample toString.simps)
  ultimately show ?thesis
    by (metis UnI2 imageI)
qed

lemma unlink_failure_request_fields:
  "accepted unlink_failure_request"
  "file_field unlink_failure_request = Some sample_part"
  "unlink_error unlink_failure_request = Some ''EPERM''"
  "uniqueName unlink_failure_request = ''21-7.mp4''"
  by (simp_all add: unlink_failure_request_def accepted_def sample_request_def sample_part_def
      fileSize_limit_def uniqueName_def toString.simps)

lemma unlink_failure_upload:
  "post_upload_video env_open unlink_failure_request full_catalog
     = (full_catalog
          \<lparr>files := List.insert ''21-7.mp4'' (files full_catalog),
           videos := videoData unlink_failure_request (disk_file unlink_failure_request sample_part)
                       # butlast (videos full_catalog)\<rparr>,
        [WriteFile ''21-7.mp4'', Unlink ''0-7.mp4''],
        Response 500 (JObj [(''error'', JStr ''Failed to upload video'')]))"
proof -
  have full: "20 \<le> length (videos full_catalog)"
    by (simp add: full_catalog_length)
  show ?thesis
    using upload_try_full[of "full_catalog\<lparr>files := List.insert ''21-7.mp4'' (files full_catalog)\<rparr>"
        env_open unlink_failure_request "disk_file unlink_failure_request sample_part"]
      full full_catalog_files
    by (simp add: post_upload_video_accepted[OF unlink_failure_request_fields(1,2)]
        unlink_failure_request_fields full_catalog_oldest error_body_def)
qed

theorem insert_evicts_oldest_once_witness:
  "accepted (sample_request 21) \<and> file_field (sample_request 21) = Some sample_part
   \<and> unlink_error (sample_request 21) = None
   \<and> 20 \<le> length (videos full_catalog)
   \<and> filename (last (videos full_catalog)) = ''0-7.mp4''
   \<and> hd (fst (snd (post_upload_video env_open (sample_request 0) (init []))))
       = WriteFile ''0-7.mp4''
   \<and> ''0-7.mp4'' \<in> set (files full_catalog)
   \<and> filter is_Unlink (fst (snd (post_upload_video env_open (sample_request 21) full_catalog)))
       = [Unlink ''0-7.mp4'']
   \<and> ''0-7.mp4'' \<notin> set (files (fst (post_upload_video env_open (sample_request 21) full_catalog)))
   \<and> videos (fst (post_upload_video env_open (sample_request 21) full_catalog))
         @ [last (videos full_catalog)]
       = videoData (sample_request 21) (disk_file (sample_request 21) sample_part)
           # videos full_catalog
   \<and> accepted unlink_failure_request
   \<and> file_field unlink_failure_request = Some sample_part
   \<and> unlink_error unlink_failure_request = Some ''EPERM''
   \<and> files (fst (post_upload_video env_open unlink_failure_request full_catalog))
       = List.insert (uniqueName unlink_failure_request) (files full_catalog)
   \<and> snd (snd (post_upload_video env_open unlink_failure_request full_catalog))
       = Response 500 (JObj [(''error'', JStr ''Failed to upload video'')])
   \<and> length (videos (init [])) < 20
   \<and> videos (fst (post_upload_video env_open (sample_request 21) (init [])))
       = videoData (sample_request 21) (disk_file (sample_request 21) sample_part)
           # videos (init [])
   \<and> filter is_Unlink (fst (snd (post_upload_video env_open (sample_request 21) (init [])))) = []"
proof -
  have a: "accepted (sample_request 21)" and a0: "accepted (sample_request 0)"
    by (rule sample_request_accepted)+
  have f: "file_field (sample_request 21) = Some sample_part"
    and f0: "file_field (sample_request 0) = Some sample_part"
    by (rule sample_request_file)+
  have u: "unlink_error (sample_request 21) = None"
    by (simp add: sample_request_def)
  have l: "20 \<le> length (videos full_catalog)" by (simp add: full_catalog_length)
  have r: "length (videos (init [])) < 20" by (simp add: init_def)
  note o = full_catalog_oldest
  note x = full_catalog_files
  note af = unlink_failure_request_fields
  have n0: "uniqueName (sample_request 0) = ''0-7.mp4''"
    by (simp add: uniqueName_sample toString.simps)
  have ex: "filename (last (videos full_catalog))
      \<in> set (List.insert (uniqueName (sample_request 21)) (files full_catalog))"
    and exf: "filename (last (videos full_catalog))
      \<in> set (List.insert (uniqueName unlink_failure_request) (files full_catalog))"
    using o x by simp_all
  note full = insert_evicts_oldest_once [OF a f, of env_open full_catalog]
  note fail = insert_evicts_oldest_once [OF af(1) af(2), of env_open full_catalog]
  note room = insert_evicts_oldest_once [OF a f, of env_open "init []"]
  note first = insert_evicts_oldest_once [OF a0 f0, of env_open "init []"]
  from first n0 have c1: "hd (fst (snd (post_upload_video env_open (sample_request 0) (init []))))
       = WriteFile ''0-7.mp4''"
    by simp
  from full l ex o
  have c2: "filter is_Unlink (fst (snd (post_upload_video env_open (sample_request 21) full_catalog)))
       = [Unlink ''0-7.mp4'']"
    by simp
  from full l u o
  have c3: "''0-7.mp4'' \<notin> set (files (fst (post_upload_video env_open (sample_request 21) full_catalog)))"
    by metis
  from full l
  have c4: "videos (fst (post_upload_video env_open (sample_request 21) full_catalog))
         @ [last (videos full_catalog)]
       = videoData (sample_request 21) (disk_file (sample_request 21) sample_part)
           # videos full_catalog"
    by blast
  have ne: "unlink_error unlink_failure_request \<noteq> None"
    by (simp add: af)
  from fail l ne exf
  have c5: "files (fst (post_upload_video env_open unlink_failure_request full_catalog))
       = List.insert (uniqueName unlink_failure_request) (files full_catalog)"
    and c6: "snd (snd (post_upload_video env_open unlink_failure_request full_catalog))
       = Response 500 (JObj [(''error'', JStr ''Failed to upload video'')])"
    by blast+
  from room r
  have c7: "videos (fst (post_upload_video env_open (sample_request 21) (init [])))
       = videoData (sample_request 21) (disk_file (sample_request 21) sample_part)
           # videos (init [])"
    and c8: "filter is_Unlink (fst (snd (post_upload_video env_open (sample_request 21) (init [])))) = []"
    by blast+
  from a f u l o c1 x c2 c3 c4 af(1) af(2) af(3) c5 c6 r c7 c8 show ?thesis
    by (intro conjI)
qed

theorem insert_evicts_oldest_once_counterexample:
  "length (videos full_catalog) = 20
   \<and> filename (last (videos full_catalog)) = ''0-7.mp4''
   \<and> ''0-7.mp4'' \<in> set (files full_catalog)
   \<and> fst (snd (post_upload_video env_open unlink_failure_request full_catalog))
       = [WriteFile ''21-7.mp4'', Unlink ''0-7.mp4'']
   \<and> ''0-7.mp4'' \<in> set (files (fst (post_upload_video env_open unlink_failure_request full_catalog)))
   \<and> snd (snd (post_upload_video env_open unlink_failure_request full_catalog))
       = Response 500 (JObj [(''error'', JStr ''Failed to upload video'')])"
  using full_catalog_length full_catalog_oldest full_catalog_files
  by (simp add: unlink_failure_upload)

subsection \<open>Deletion by id\<close>

lemma subseq_splice1: "subseq (splice1 k xs) xs"
  by (induction xs arbitrary: k) (auto simp: splice1_def take_Cons split: nat.splits)

lemma take_2_sample_uploads:
  "take 2 sample_uploads
     = [PostUploadVideo env_open (sample_request 0), PostUploadVideo env_open (sample_request 1)]"
  by (simp add: sample_uploads_def upt_rec)

lemma two_videos_videos:
  "videos two_videos
     = [videoData (sample_request 1) (disk_file (sample_request 1) sample_part),
        videoData (sample_request 0) (disk_file (sample_request 0) sample_part)]"
proof -
  have "videos two_videos
      = take 20 (rev (inserted_by (take 2 sample_uploads)) @ videos (init []))"
    unfolding two_videos_def
    by (rule run_insertions) (simp_all add: init_def take_2_sample_uploads sample_request_accepted)
  then show ?thesis
    by (simp add: take_2_sample_uploads inserted_sample init_def)
qed

lemma two_videos_files: "set (files two_videos) = {''0-7.mp4'', ''1-7.mp4''}"
proof -
  have "set (files two_videos)
      = set (files (init [])) \<union> filename ` set (inserted_by (take 2 sample_uploads))"
    unfolding two_videos_def
    by (rule run_insertions_files)
      (simp_all add: init_def take_2_sample_uploads sample_request_accepted)
  then show ?thesis
    by (auto simp: take_2_sample_uploads inserted_sample init_def filename_videoData
        uniqueName_sample toString.simps)
qed

lemma two_videos_ids: "map id_v (videos two_videos) = [''1'', ''0'']"
  by (simp add: two_videos_videos videoData_def sample_request_def toString.simps)

lemma two_videos_names: "map filename (videos two_videos) = [''1-7.mp4'', ''0-7.mp4'']"
  by (simp add: two_videos_videos filename_videoData uniqueName_sample toString.simps)

lemma two_videos_find: "findIndex (\<lambda>v. id_v v = ''0'') (videos two_videos) = Some (Suc 0)"
proof -
  obtain a b where ab: "videos two_videos = [a, b]"
    by (simp add: two_videos_videos)
  with two_videos_ids have "id_v a = ''1''" and "id_v b = ''0''"
    by simp_all
  with ab show ?thesis by simp
qed

lemma two_videos_second: "filename (videos two_videos ! Suc 0) = ''0-7.mp4''"
proof -
  have "map filename (videos two_videos) ! Suc 0 = ''0-7.mp4''"
    by (simp add: two_videos_names)
  moreover have "Suc 0 < length (videos two_videos)"
    by (simp add: two_videos_videos)
  ultimately show ?thesis by simp
qed

text \<open>
  Claim C3, as the code has it. Deleting by an id that no record of the local catalog
  carries answers 404 with the error \<^verbatim>\<open>Video not found\<close>, changes nothing and has no
  effect. Deleting by an id that a record carries concerns the first record with that
  id. When its file does not exist or is removed, exactly that record leaves the catalog,
  which is one record shorter and in the old order, the file is gone, the event
  \<^verbatim>\<open>video_deleted\<close> with the id goes to every open channel and the answer is 200 with
  \<^verbatim>\<open>success\<close> and \<^verbatim>\<open>message\<close>; the record is not part of the answer. When the system
  refuses to remove the file, nothing is removed and nothing is broadcast, and the answer
  is 500 with \<^verbatim>\<open>Internal server error\<close>.
\<close>

theorem remove_by_id:
  "(videoId \<notin> id_v ` set (videos st) \<longrightarrow>
      delete_video env fault videoId st
        = (st, [], Response 404 (JObj [(''error'', JStr ''Video not found'')])))
   \<and> (videoId \<in> id_v ` set (videos st) \<longrightarrow>
        (\<exists>k<length (videos st).
            id_v (videos st ! k) = videoId
          \<and> (\<forall>j<k. id_v (videos st ! j) \<noteq> videoId)
          \<and> videos st = take k (videos st) @ (videos st ! k) # drop (Suc k) (videos st)
          \<and> (fault = None \<or> filename (videos st ! k) \<notin> set (files st) \<longrightarrow>
                delete_video env fault videoId st
                  = (st\<lparr>files := removeAll (filename (videos st ! k)) (files st),
                        videos := take k (videos st) @ drop (Suc k) (videos st)\<rparr>,
                     (if filename (videos st ! k) \<in> set (files st)
                      then [Unlink (filename (videos st ! k))] else [])
                       @ map (\<lambda>c. Send c (JObj [(''type'', JStr ''video_deleted''),
                                                  (''videoId'', JStr videoId)]))
                           (filter (\<lambda>c. readyState (env c) = OPEN) (clients st)),
                     Response 200 (JObj [(''success'', JBool True),
                                         (''message'', JStr ''Video deleted successfully'')]))
              \<and> Suc (length (videos (fst (delete_video env fault videoId st))))
                  = length (videos st)
              \<and> subseq (videos (fst (delete_video env fault videoId st))) (videos st)
              \<and> filename (videos st ! k) \<notin> set (files (fst (delete_video env fault videoId st))))
          \<and> (fault \<noteq> None \<and> filename (videos st ! k) \<in> set (files st) \<longrightarrow>
                delete_video env fault videoId st
                  = (st, [Unlink (filename (videos st ! k))],
                     Response 500 (JObj [(''error'', JStr ''Internal server error'')])))))"
proof (intro conjI impI)
  assume "videoId \<notin> id_v ` set (videos st)"
  then have "findIndex (\<lambda>v. id_v v = videoId) (videos st) = None"
    by (auto simp: findIndex_None)
  then show "delete_video env fault videoId st
          = (st, [], Response 404 (JObj [(''error'', JStr ''Video not found'')]))"
    by (simp add: delete_video_not_found error_body_def)
next
  assume present: "videoId \<in> id_v ` set (videos st)"
  then have "findIndex (\<lambda>v. id_v v = videoId) (videos st) \<noteq> None"
    by (auto simp: findIndex_None)
  then obtain k where k: "findIndex (\<lambda>v. id_v v = videoId) (videos st) = Some k"
    by auto
  then have kl: "k < length (videos st)" and kid: "id_v (videos st ! k) = videoId"
    and first: "\<forall>j<k. id_v (videos st ! j) \<noteq> videoId"
    using findIndex_Some[of "\<lambda>v. id_v v = videoId" "videos st" k] by simp_all
  note eq = delete_video_found[OF k, of env fault]
  have split: "videos st = take k (videos st) @ (videos st ! k) # drop (Suc k) (videos st)"
    using kl by (simp add: id_take_nth_drop[symmetric])
  have ok: "fault = None \<or> filename (videos st ! k) \<notin> set (files st) \<longrightarrow>
        delete_video env fault videoId st
          = (st\<lparr>files := removeAll (filename (videos st ! k)) (files st),
                videos := take k (videos st) @ drop (Suc k) (videos st)\<rparr>,
             (if filename (videos st ! k) \<in> set (files st)
              then [Unlink (filename (videos st ! k))] else [])
               @ map (\<lambda>c. Send c (JObj [(''type'', JStr ''video_deleted''),
                                          (''videoId'', JStr videoId)]))
                   (filter (\<lambda>c. readyState (env c) = OPEN) (clients st)),
             Response 200 (JObj [(''success'', JBool True),
                                 (''message'', JStr ''Video deleted successfully'')]))
      \<and> Suc (length (videos (fst (delete_video env fault videoId st)))) = length (videos st)
      \<and> subseq (videos (fst (delete_video env fault videoId st))) (videos st)
      \<and> filename (videos st ! k) \<notin> set (files (fst (delete_video env fault videoId st)))"
    using kl length_splice1[OF kl] subseq_splice1[of k "videos st"]
    by (auto simp: eq forEach_send_eq video_deleted_event_def splice1_def)
  have bad: "fault \<noteq> None \<and> filename (videos st ! k) \<in> set (files st) \<longrightarrow>
        delete_video env fault videoId st
          = (st, [Unlink (filename (videos st ! k))],
             Response 500 (JObj [(''error'', JStr ''Internal server error'')]))"
    by (simp add: eq error_body_def)
  from kl kid first split ok bad
  show "\<exists>k<length (videos st).
            id_v (videos st ! k) = videoId
          \<and> (\<forall>j<k. id_v (videos st ! j) \<noteq> videoId)
          \<and> videos st = take k (videos st) @ (videos st ! k) # drop (Suc k) (videos st)
          \<and> (fault = None \<or> filename (videos st ! k) \<notin> set (files st) \<longrightarrow>
                delete_video env fault videoId st
                  = (st\<lparr>files := removeAll (filename (videos st ! k)) (files st),
                        videos := take k (videos st) @ drop (Suc k) (videos st)\<rparr>,
                     (if filename (videos st ! k) \<in> set (files st)
                      then [Unlink (filename (videos st ! k))] else [])
                       @ map (\<lambda>c. Send c (JObj [(''type'', JStr ''video_deleted''),
                                                  (''videoId'', JStr videoId)]))
                           (filter (\<lambda>c. readyState (env c) = OPEN) (clients st)),
                     Response 200 (JObj [(''success'', JBool True),
                                         (''message'', JStr ''Video deleted successfully'')]))
              \<and> Suc (length (videos (fst (delete_video env fault videoId st))))
                  = length (videos st)
              \<and> subseq (videos (fst (delete_video env fault videoId st))) (videos st)
              \<and> filename (videos st ! k) \<notin> set (files (fst (delete_video env fault videoId st))))
          \<and> (fault \<noteq> None \<and> filename (videos st ! k) \<in> set (files st) \<longrightarrow>
                delete_video env fault videoId st
                  = (st, [Unlink (filename (videos st ! k))],
                     Response 500 (JObj [(''error'', JStr ''Internal server error'')])))"
    by blast
qed

lemma two_videos_delete_refused:
  "delete_video env_open (Some ''EPERM'') ''0'' two_videos
     = (two_videos, [Unlink ''0-7.mp4''],
        Response 500 (JObj [(''error'', JStr ''Internal server error'')]))"
  using two_videos_files
  by (simp add: delete_video_found[OF two_videos_find] two_videos_second error_body_def)

lemma two_videos_delete_done:
  "delete_video env_open None ''0'' two_videos
     = (two_videos\<lparr>files := removeAll ''0-7.mp4'' (files two_videos),
                   videos := [videoData (sample_request 1) (disk_file (sample_request 1) sample_part)]\<rparr>,
        [Unlink ''0-7.mp4''],
        Response 200 (JObj [(''success'', JBool True),
                            (''message'', JStr ''Video deleted successfully'')]))"
proof -
  have "clients two_videos = clients (init [])"
    unfolding two_videos_def
    by (rule run_insertions_clients) (simp add: take_2_sample_uploads sample_request_accepted)
  then have c: "clients two_videos = []"
    by (simp add: init_def)
  have s: "splice1 (Suc 0) (videos two_videos)
      = [videoData (sample_request 1) (disk_file (sample_request 1) sample_part)]"
    by (simp add: two_videos_videos splice1_def)
  show ?thesis
    using two_videos_files
    by (simp add: delete_video_found[OF two_videos_find] two_videos_second c s)
qed

lemma two_videos_all_stored:
  "\<forall>k<length (videos two_videos). filename (videos two_videos ! k) \<in> set (files two_videos)"
proof (intro allI impI)
  fix k
  assume "k < length (videos two_videos)"
  then have "filename (videos two_videos ! k) \<in> set (map filename (videos two_videos))"
    by (metis length_map nth_map nth_mem)
  then show "filename (videos two_videos ! k) \<in> set (files two_videos)"
    by (auto simp: two_videos_names two_videos_files)
qed

theorem remove_by_id_witness:
  "''0'' \<in> id_v ` set (videos two_videos)
   \<and> Suc (length (videos (fst (delete_video env_open None ''0'' two_videos))))
       = length (videos two_videos)
   \<and> subseq (videos (fst (delete_video env_open None ''0'' two_videos))) (videos two_videos)
   \<and> delete_video env_open None ''0'' two_videos
       = (two_videos\<lparr>files := removeAll ''0-7.mp4'' (files two_videos),
                     videos := [videoData (sample_request 1) (disk_file (sample_request 1) sample_part)]\<rparr>,
          [Unlink ''0-7.mp4''],
          Response 200 (JObj [(''success'', JBool True),
                              (''message'', JStr ''Video deleted successfully'')]))
   \<and> fst (delete_video env_open (Some ''EPERM'') ''0'' two_videos) = two_videos
   \<and> snd (snd (delete_video env_open (Some ''EPERM'') ''0'' two_videos))
       = Response 500 (JObj [(''error'', JStr ''Internal server error'')])
   \<and> ''5'' \<notin> id_v ` set (videos two_videos)
   \<and> delete_video env_open None ''5'' two_videos
       = (two_videos, [], Response 404 (JObj [(''error'', JStr ''Video not found'')]))"
proof -
  have "set (map id_v (videos two_videos)) = {''1'', ''0''}"
    by (simp add: two_videos_ids)
  then have p: "''0'' \<in> id_v ` set (videos two_videos)"
    and a: "''5'' \<notin> id_v ` set (videos two_videos)"
    by auto
  note removed = remove_by_id [of "''0''" two_videos env_open None, THEN conjunct2, THEN mp, OF p]
  note refused = remove_by_id [of "''0''" two_videos env_open "Some ''EPERM''", THEN conjunct2,
      THEN mp, OF p]
  note absent = remove_by_id [of "''5''" two_videos env_open None, THEN conjunct1, THEN mp, OF a]
  from removed
  have d1: "Suc (length (videos (fst (delete_video env_open None ''0'' two_videos))))
       = length (videos two_videos)"
    and d2: "subseq (videos (fst (delete_video env_open None ''0'' two_videos))) (videos two_videos)"
    by blast+
  from refused two_videos_all_stored
  have "\<exists>k. delete_video env_open (Some ''EPERM'') ''0'' two_videos
      = (two_videos, [Unlink (filename (videos two_videos ! k))],
         Response 500 (JObj [(''error'', JStr ''Internal server error'')]))"
    by (metis option.distinct(1))
  then have r1: "fst (delete_video env_open (Some ''EPERM'') ''0'' two_videos) = two_videos"
    and r2: "snd (snd (delete_video env_open (Some ''EPERM'') ''0'' two_videos))
       = Response 500 (JObj [(''error'', JStr ''Internal server error'')])"
    by auto
  from p d1 d2 two_videos_delete_done r1 r2 a absent show ?thesis
    by (intro conjI)
qed

theorem remove_by_id_counterexample:
  "''0'' \<in> id_v ` set (videos two_videos)
   \<and> delete_video env_open (Some ''EPERM'') ''0'' two_videos
       = (two_videos, [Unlink ''0-7.mp4''],
          Response 500 (JObj [(''error'', JStr ''Internal server error'')]))
   \<and> map id_v (videos (fst (delete_video env_open (Some ''EPERM'') ''0'' two_videos)))
       = [''1'', ''0'']"
proof -
  have "set (map id_v (videos two_videos)) = {''1'', ''0''}"
    by (simp add: two_videos_ids)
  then have "''0'' \<in> id_v ` set (videos two_videos)"
    by auto
  then show ?thesis
    by (simp add: two_videos_delete_refused two_videos_ids)
qed

subsection \<open>Broadcast and the registry\<close>

lemma forEach_send_sends:
  "e \<in> set (forEach_send env m cs) \<Longrightarrow>
     \<exists>c\<in>set cs. e = Send c m \<and> readyState (env c) = OPEN"
  by (auto simp: forEach_send_eq)

lemma upload_try_sends:
  assumes "Send c m \<in> set (fst (snd (upload_try env rq file st)))"
  shows "c \<in> set (clients st)"
proof (cases "20 \<le> length (videos st)")
  case True
  from assms show ?thesis
    by (auto simp: upload_try_full[OF True] split: if_splits option.splits)
next
  case False
  then have "length (videos st) < 20" by simp
  from assms show ?thesis
    by (auto simp: upload_try_room[OF \<open>length (videos st) < 20\<close>])
qed

lemma post_upload_video_sends:
  assumes "Send c m \<in> set (fst (snd (post_upload_video env rq st)))"
  shows "c \<in> set (clients st)"
proof (cases "file_field rq")
  case None
  with assms show ?thesis
    by (simp add: post_upload_video_def upload_single_no_file upload_video_handler_def)
next
  case (Some p)
  show ?thesis
  proof (cases "accepted rq")
    case True
    from assms
    have "Send c m \<in> set (fst (snd (upload_try env rq (disk_file rq p)
        (st\<lparr>files := List.insert (uniqueName rq) (files st)\<rparr>))))"
      by (auto simp: post_upload_video_accepted[OF True Some] split: prod.splits option.splits)
    from upload_try_sends[OF this] show ?thesis by simp
  next
    case False
    with assms upload_single_not_accepted[OF False Some, of st] show ?thesis
      by (auto simp: post_upload_video_def)
  qed
qed

lemma delete_video_sends:
  assumes "Send c m \<in> set (fst (snd (delete_video env fault videoId st)))"
  shows "c \<in> set (clients st)"
proof (cases "findIndex (\<lambda>v. id_v v = videoId) (videos st)")
  case None
  with assms show ?thesis by (simp add: delete_video_not_found)
next
  case (Some k)
  with assms show ?thesis
    by (auto simp: delete_video_found forEach_send_eq split: if_splits)
qed

lemma step_sends:
  assumes "Send c m \<in> set (fst (snd (step ev st)))"
  shows "c \<in> set (clients st)"
proof (cases ev)
  case (PostUploadVideo env rq)
  with assms show ?thesis
    by (auto simp: case_prod_beta dest: post_upload_video_sends)
next
  case (DeleteVideo env fault videoId)
  with assms show ?thesis
    by (auto simp: case_prod_beta dest: delete_video_sends)
qed (use assms in \<open>simp_all add: get_videos_def\<close>)

lemma run_no_delivery:
  "c \<notin> set (clients st) \<Longrightarrow> WsConnection c \<notin> set evs \<Longrightarrow>
     c \<notin> set (clients (run evs st)) \<and> (\<forall>m. Send c m \<notin> set (run_effects evs st))"
proof (induction evs arbitrary: st)
  case Nil
  then show ?case by simp
next
  case (Cons ev evs)
  from Cons.prems have "c \<notin> set (clients (fst (step ev st)))"
    by (cases ev) (auto simp: step_clients set_add_def set_delete_def simp del: step.simps)
  with Cons.prems
  have "c \<notin> set (clients (run evs (fst (step ev st))))
      \<and> (\<forall>m. Send c m \<notin> set (run_effects evs (fst (step ev st))))"
    by (intro Cons.IH) simp_all
  moreover from Cons.prems(1) have "\<forall>m. Send c m \<notin> set (fst (snd (step ev st)))"
    using step_sends[of c _ ev st] by blast
  ultimately show ?case
    by (simp del: step.simps)
qed

lemma deregistered_by_event:
  "c \<notin> set (clients (fst (step (WsError c) st)))"
  "c \<notin> set (clients (fst (step (WsClose c) st)))"
  by (simp_all add: on_error_def on_close_def set_delete_def)

lemma leaves_registry_by_own_event:
  assumes "c \<in> set (clients st) \<and> c \<notin> set (clients (fst (step ev st)))"
  shows "ev = WsClose c \<or> ev = WsError c"
  using assms
  by (cases ev)
    (auto simp: step_clients set_add_def set_delete_def simp del: step.simps split: if_splits)

text \<open>
  Claim C4, as the code has it. A broadcast raises no error to its caller, and with no
  registered channel it has no effect. It hands the message to every registered channel
  that is open, in the order of registration, whether or not a send fails, and leaves
  registry and catalog as they are: a channel whose send fails is not deregistered by
  the broadcast, and a later broadcast that finds it registered and open attempts the
  delivery again. A channel leaves the registry only when its own error or close event
  is handled; from then on, as long as it does not connect again, it is not registered
  and no delivery to it is attempted.
\<close>

theorem broadcast_failure_handling:
  "broadcast env d st
     = (st, map (\<lambda>c. Send c d) (filter (\<lambda>c. readyState (env c) = OPEN) (clients st)), None)
   \<and> (clients st = [] \<longrightarrow> broadcast env d st = (st, [], None))
   \<and> (c \<in> set (clients st) \<and> readyState (env c) = OPEN \<longrightarrow>
        Send c d \<in> set (fst (snd (broadcast env d st)))
        \<and> c \<in> set (clients (fst (broadcast env d st))))
   \<and> (c \<in> set (clients st) \<and> c \<notin> set (clients (fst (step ev st))) \<longrightarrow>
        ev = WsClose c \<or> ev = WsError c)
   \<and> c \<notin> set (clients (fst (step (WsError c) st)))
   \<and> c \<notin> set (clients (fst (step (WsClose c) st)))
   \<and> (WsConnection c \<notin> set evs \<longrightarrow>
        c \<notin> set (clients (run evs (fst (step (WsError c) st))))
        \<and> (\<forall>m. Send c m \<notin> set (run_effects evs (fst (step (WsError c) st))))
        \<and> c \<notin> set (clients (run evs (fst (step (WsClose c) st))))
        \<and> (\<forall>m. Send c m \<notin> set (run_effects evs (fst (step (WsClose c) st)))))"
proof (intro conjI impI)
  show b: "broadcast env d st
     = (st, map (\<lambda>c. Send c d) (filter (\<lambda>c. readyState (env c) = OPEN) (clients st)), None)"
    by (simp add: broadcast_eq forEach_send_eq)
  {
    assume "clients st = []"
    then show "broadcast env d st = (st, [], None)"
      by (simp add: b)
  }
  {
    assume "c \<in> set (clients st) \<and> readyState (env c) = OPEN"
    then show "Send c d \<in> set (fst (snd (broadcast env d st)))"
      and "c \<in> set (clients (fst (broadcast env d st)))"
      by (auto simp: b)
  }
  {
    assume "c \<in> set (clients st) \<and> c \<notin> set (clients (fst (step ev st)))"
    then show "ev = WsClose c \<or> ev = WsError c"
      by (rule leaves_registry_by_own_event)
  }
  show e: "c \<notin> set (clients (fst (step (WsError c) st)))"
    and cl: "c \<notin> set (clients (fst (step (WsClose c) st)))"
    by (rule deregistered_by_event)+
  assume n: "WsConnection c \<notin> set evs"
  from run_no_delivery[OF e n]
  show "c \<notin> set (clients (run evs (fst (step (WsError c) st))))"
    and "\<forall>m. Send c m \<notin> set (run_effects evs (fst (step (WsError c) st)))"
    by blast+
  from run_no_delivery[OF cl n]
  show "c \<notin> set (clients (run evs (fst (step (WsClose c) st))))"
    and "\<forall>m. Send c m \<notin> set (run_effects evs (fst (step (WsClose c) st)))"
    by blast+
qed

lemma one_client_fields: "videos one_client = []" "clients one_client = [0]" "files one_client = []"
  by (simp_all add: one_client_def on_connection_def set_add_def init_def)

lemma dead_peer_broadcast:
  "broadcast env_dead_peer d one_client = (one_client, [Send 0 d], None)"
  by (simp add: broadcast_def one_client_fields env_dead_peer_def dead_peer_socket_def)

theorem broadcast_failure_handling_witness:
  "clients (init []) = []
   \<and> broadcast env_dead_peer (video_deleted_event ''1'') (init []) = (init [], [], None)
   \<and> 0 \<in> set (clients one_client)
   \<and> readyState (env_dead_peer 0) = OPEN
   \<and> send_fails (env_dead_peer 0)
   \<and> Send 0 (video_deleted_event ''1'')
       \<in> set (fst (snd (broadcast env_dead_peer (video_deleted_event ''1'') one_client)))
   \<and> 0 \<in> set (clients (fst (broadcast env_dead_peer (video_deleted_event ''1'') one_client)))
   \<and> 0 \<notin> set (clients (fst (step (WsError 0) one_client)))
   \<and> WsConnection 0 \<notin> set [PostUploadVideo env_open (sample_request 5)]
   \<and> 0 \<notin> set (clients (run [PostUploadVideo env_open (sample_request 5)]
                          (fst (step (WsError 0) one_client))))
   \<and> (\<forall>m. Send 0 m \<notin> set (run_effects [PostUploadVideo env_open (sample_request 5)]
                                (fst (step (WsError 0) one_client))))"
proof -
  have e: "clients (init []) = []" by (simp add: init_def)
  have m: "0 \<in> set (clients one_client)" by (simp add: one_client_fields)
  have o: "readyState (env_dead_peer 0) = OPEN" and f: "send_fails (env_dead_peer 0)"
    by (simp_all add: env_dead_peer_def dead_peer_socket_def)
  have n: "WsConnection 0 \<notin> set [PostUploadVideo env_open (sample_request 5)]"
    by simp
  note a = broadcast_failure_handling [of env_dead_peer "video_deleted_event ''1''" "init []" 0
      "WsError 0" "[]"]
  note b = broadcast_failure_handling [of env_dead_peer "video_deleted_event ''1''" one_client 0
      "WsError 0" "[PostUploadVideo env_open (sample_request 5)]"]
  from a e have a1: "broadcast env_dead_peer (video_deleted_event ''1'') (init []) = (init [], [], None)"
    by blast
  from b m o have b1: "Send 0 (video_deleted_event ''1'')
       \<in> set (fst (snd (broadcast env_dead_peer (video_deleted_event ''1'') one_client)))"
    and b2: "0 \<in> set (clients (fst (broadcast env_dead_peer (video_deleted_event ''1'') one_client)))"
    by blast+
  from b have b3: "0 \<notin> set (clients (fst (step (WsError 0) one_client)))"
    by blast
  from b n have b4: "0 \<notin> set (clients (run [PostUploadVideo env_open (sample_request 5)]
                          (fst (step (WsError 0) one_client))))"
    and b5: "\<forall>m. Send 0 m \<notin> set (run_effects [PostUploadVideo env_open (sample_request 5)]
                                (fst (step (WsError 0) one_client)))"
    by blast+
  from e a1 m o f b1 b2 b3 n b4 b5 show ?thesis by (intro conjI)
qed

theorem broadcast_failure_counterexample:
  "clients one_client = [0]
   \<and> readyState (env_dead_peer 0) = OPEN
   \<and> send_fails (env_dead_peer 0)
   \<and> broadcast env_dead_peer (video_deleted_event ''1'') one_client
       = (one_client, [Send 0 (video_deleted_event ''1'')], None)
   \<and> clients (fst (broadcast env_dead_peer (video_deleted_event ''1'') one_client)) = [0]
   \<and> fst (snd (broadcast env_dead_peer (video_deleted_event ''2'')
         (fst (broadcast env_dead_peer (video_deleted_event ''1'') one_client))))
       = [Send 0 (video_deleted_event ''2'')]"
proof -
  have "readyState (env_dead_peer 0) = OPEN" and "send_fails (env_dead_peer 0)"
    by (simp_all add: env_dead_peer_def dead_peer_socket_def)
  then show ?thesis
    by (simp add: dead_peer_broadcast one_client_fields)
qed

text \<open>
  Claim C10. A broadcast changes neither the registry nor the catalog: the state after
  it is the state before it. It delivers to registered channels only and passes over a
  channel that is not open, which stays registered. A channel leaves the registry only
  with its own close or error event.
\<close>

theorem broadcast_frame:
  "fst (broadcast env d st) = st
   \<and> (\<forall>e\<in>set (fst (snd (broadcast env d st))).
        \<exists>c\<in>set (clients st). e = Send c d \<and> readyState (env c) = OPEN)
   \<and> (readyState (env c) \<noteq> OPEN \<longrightarrow>
        Send c d \<notin> set (fst (snd (broadcast env d st)))
        \<and> (c \<in> set (clients st) \<longrightarrow> c \<in> set (clients (fst (broadcast env d st)))))
   \<and> (c \<in> set (clients st) \<and> c \<notin> set (clients (fst (step ev st))) \<longrightarrow>
        ev = WsClose c \<or> ev = WsError c)"
proof (intro conjI impI ballI)
  show "fst (broadcast env d st) = st"
    by (simp add: broadcast_eq)
next
  fix e
  assume "e \<in> set (fst (snd (broadcast env d st)))"
  then show "\<exists>c\<in>set (clients st). e = Send c d \<and> readyState (env c) = OPEN"
    using forEach_send_sends[of e env d "clients st"] by (auto simp: broadcast_eq)
next
  assume "readyState (env c) \<noteq> OPEN"
  then show "Send c d \<notin> set (fst (snd (broadcast env d st)))"
    using forEach_send_sends[of "Send c d" env d "clients st"] by (auto simp: broadcast_eq)
next
  assume "c \<in> set (clients st)"
  then show "c \<in> set (clients (fst (broadcast env d st)))"
    by (simp add: broadcast_eq)
next
  assume "c \<in> set (clients st) \<and> c \<notin> set (clients (fst (step ev st)))"
  then show "ev = WsClose c \<or> ev = WsError c"
    by (rule leaves_registry_by_own_event)
qed

theorem broadcast_frame_witness:
  "readyState (env_first_open 1) \<noteq> OPEN
   \<and> fst (broadcast env_first_open (video_deleted_event ''1'') two_clients) = two_clients
   \<and> Send 1 (video_deleted_event ''1'')
       \<notin> set (fst (snd (broadcast env_first_open (video_deleted_event ''1'') two_clients)))
   \<and> 1 \<in> set (clients two_clients)
   \<and> 1 \<in> set (clients (fst (broadcast env_first_open (video_deleted_event ''1'') two_clients)))
   \<and> 1 \<notin> set (clients (fst (step (WsClose 1) two_clients)))
   \<and> fst (snd (broadcast env_first_open (video_deleted_event ''1'') two_clients))
       = [Send 0 (video_deleted_event ''1'')]"
proof -
  have n: "readyState (env_first_open 1) \<noteq> OPEN"
    by (simp add: env_first_open_def closed_socket_def)
  have m: "1 \<in> set (clients two_clients)"
    by (simp add: two_clients_def on_connection_def set_add_def init_def)
  have g: "1 \<notin> set (clients (fst (step (WsClose 1) two_clients)))"
    by (simp add: two_clients_def on_connection_def on_close_def set_add_def set_delete_def
        init_def)
  have v: "fst (snd (broadcast env_first_open (video_deleted_event ''1'') two_clients))
       = [Send 0 (video_deleted_event ''1'')]"
    by (simp add: broadcast_def two_clients_def on_connection_def set_add_def init_def
        env_first_open_def open_socket_def closed_socket_def)
  note r = broadcast_frame [of env_first_open "video_deleted_event ''1''" two_clients 1 "WsClose 1"]
  from r have r1: "fst (broadcast env_first_open (video_deleted_event ''1'') two_clients) = two_clients"
    by (rule conjunct1)
  from r n m have r2: "Send 1 (video_deleted_event ''1'')
       \<notin> set (fst (snd (broadcast env_first_open (video_deleted_event ''1'') two_clients)))"
    and r3: "1 \<in> set (clients (fst (broadcast env_first_open (video_deleted_event ''1'') two_clients)))"
    by blast+
  from n r1 r2 m r3 g v show ?thesis by (intro conjI)
qed

subsection \<open>Uploads that fail\<close>









text \<open>
  Claim C6, as the code has it. In the local variant an upload whose file has a MIME
  type that does not start with \<^verbatim>\<open>video/\<close> is refused by the file filter, with the error
  \<^verbatim>\<open>Only video files are allowed\<close>, before anything is written: the state is unchanged,
  there is no effect, hence no broadcast, and the answer is 500. The cloud variant has no
  such check: a file within the size limit is handed to the storage provider whatever
  its MIME type. When the provider accepts it, the event \<^verbatim>\<open>new_video\<close> with the record
  goes to every open channel and the answer is 200 with the record; when the provider
  refuses it, nothing is broadcast and the answer is 500. The state of the cloud variant
  never changes.
\<close>

theorem non_video_upload:
  "(file_field rq = Some p \<and> \<not> prefix ''video/'' (part_mimetype p) \<longrightarrow>
      upload_single rq st = Inl (Error ''Only video files are allowed'')
      \<and> post_upload_video env rq st
          = (st, [], Response 500 (JObj [(''error'', JStr ''Internal server error'')])))
   \<and> (cloud_file_field crq = Some p \<and> part_size p \<le> fileSize_limit \<longrightarrow>
        hd (fst (snd (cloud_post_upload_video env crq cst))) = ProviderUpload (originalname p)
        \<and> (\<forall>pid purl n. provider_upload crq = Inr (pid, purl, n) \<longrightarrow>
              cloud_post_upload_video env crq cst
                = (cst,
                   ProviderUpload (originalname p)
                     # map (\<lambda>c. Send c (JObj
                              [(''type'', JStr ''new_video''),
                               (''video'', JObj
                                  [(''id'', JStr pid),
                                   (''name'', JStr (originalname p)),
                                   (''url'', JStr purl),
                                   (''size'', JNum n),
                                   (''mimetype'', JStr (part_mimetype p)),
                                   (''timestamp'', JStr (cloud_iso_now crq))])]))
                         (filter (\<lambda>c. readyState (env c) = OPEN) (cloud_clients cst)),
                   Response 200 (JObj
                     [(''success'', JBool True),
                      (''message'', JStr ''Video uploaded successfully''),
                      (''video'', JObj
                         [(''id'', JStr pid),
                          (''name'', JStr (originalname p)),
                          (''url'', JStr purl),
                          (''size'', JNum n),
                          (''mimetype'', JStr (part_mimetype p)),
                          (''timestamp'', JStr (cloud_iso_now crq))])])))
        \<and> (\<forall>e. provider_upload crq = Inl e \<longrightarrow>
              cloud_post_upload_video env crq cst
                = (cst, [ProviderUpload (originalname p)], Response 500 JNull)))
   \<and> fst (cloud_post_upload_video env crq cst) = cst"
proof (intro conjI impI allI)
  assume "file_field rq = Some p \<and> \<not> prefix ''video/'' (part_mimetype p)"
  then show u: "upload_single rq st = Inl (Error ''Only video files are allowed'')"
    by (simp add: upload_single_def fileFilter_def)
  then show "post_upload_video env rq st
          = (st, [], Response 500 (JObj [(''error'', JStr ''Internal server error'')]))"
    by (simp add: post_upload_video_def error_middleware_def error_body_def)
next
  assume "cloud_file_field crq = Some p \<and> part_size p \<le> fileSize_limit"
  then show "hd (fst (snd (cloud_post_upload_video env crq cst))) = ProviderUpload (originalname p)"
    by (simp add: cloud_post_upload_video_def cloud_upload_single_def
        cloud_upload_video_handler_def cloud_broadcast_def
        split: sum.splits prod.splits option.splits)
next
  fix pid purl n
  assume "cloud_file_field crq = Some p \<and> part_size p \<le> fileSize_limit"
    and "provider_upload crq = Inr (pid, purl, n)"
  then show "cloud_post_upload_video env crq cst
                = (cst,
                   ProviderUpload (originalname p)
                     # map (\<lambda>c. Send c (JObj
                              [(''type'', JStr ''new_video''),
                               (''video'', JObj
                                  [(''id'', JStr pid),
                                   (''name'', JStr (originalname p)),
                                   (''url'', JStr purl),
                                   (''size'', JNum n),
                                   (''mimetype'', JStr (part_mimetype p)),
                                   (''timestamp'', JStr (cloud_iso_now crq))])]))
                         (filter (\<lambda>c. readyState (env c) = OPEN) (cloud_clients cst)),
                   Response 200 (JObj
                     [(''success'', JBool True),
                      (''message'', JStr ''Video uploaded successfully''),
                      (''video'', JObj
                         [(''id'', JStr pid),
                          (''name'', JStr (originalname p)),
                          (''url'', JStr purl),
                          (''size'', JNum n),
                          (''mimetype'', JStr (part_mimetype p)),
                          (''timestamp'', JStr (cloud_iso_now crq))])]))"
    by (simp add: cloud_post_upload_video_def cloud_upload_single_def
        cloud_upload_video_handler_def cloud_broadcast_def cloud_videoData_def forEach_send_eq)
next
  fix e
  assume "cloud_file_field crq = Some p \<and> part_size p \<le> fileSize_limit"
    and "provider_upload crq = Inl e"
  then show "cloud_post_upload_video env crq cst
                = (cst, [ProviderUpload (originalname p)], Response 500 JNull)"
    by (simp add: cloud_post_upload_video_def cloud_upload_single_def default_error_handler_def)
next
  show "fst (cloud_post_upload_video env crq cst) = cst"
    by (simp add: cloud_post_upload_video_def cloud_upload_single_def
        cloud_upload_video_handler_def cloud_broadcast_def default_error_handler_def
        split: sum.splits prod.splits option.splits)
qed

theorem non_video_upload_witness:
  "file_field text_request = Some text_part
   \<and> \<not> prefix ''video/'' (part_mimetype text_part)
   \<and> post_upload_video env_first_open text_request one_client
       = (one_client, [], Response 500 (JObj [(''error'', JStr ''Internal server error'')]))
   \<and> cloud_file_field cloud_text_request = Some text_part
   \<and> part_size text_part \<le> fileSize_limit
   \<and> provider_upload cloud_text_request
       = Inr (''harsh-resource-hub-videos/notes'', ''https://cdn.example/notes.mp4'', 10)
   \<and> cloud_post_upload_video env_first_open cloud_text_request cloud_two_clients
       = (cloud_two_clients,
          [ProviderUpload ''notes.mp4'',
           Send 0 (JObj [(''type'', JStr ''new_video''),
                         (''video'', JObj
                            [(''id'', JStr ''harsh-resource-hub-videos/notes''),
                             (''name'', JStr ''notes.mp4''),
                             (''url'', JStr ''https://cdn.example/notes.mp4''),
                             (''size'', JNum 10),
                             (''mimetype'', JStr ''text/plain''),
                             (''timestamp'', JStr ''2024-01-01T00:00:00.000Z'')])])],
          Response 200 (JObj
            [(''success'', JBool True),
             (''message'', JStr ''Video uploaded successfully''),
             (''video'', JObj
                [(''id'', JStr ''harsh-resource-hub-videos/notes''),
                 (''name'', JStr ''notes.mp4''),
                 (''url'', JStr ''https://cdn.example/notes.mp4''),
                 (''size'', JNum 10),
                 (''mimetype'', JStr ''text/plain''),
                 (''timestamp'', JStr ''2024-01-01T00:00:00.000Z'')])]))
   \<and> cloud_file_field cloud_refused_request = Some text_part
   \<and> provider_upload cloud_refused_request = Inl (Error ''Unsupported video format or file'')
   \<and> cloud_post_upload_video env_first_open cloud_refused_request cloud_two_clients
       = (cloud_two_clients, [ProviderUpload ''notes.mp4''], Response 500 JNull)"
proof -
  have f: "file_field text_request = Some text_part"
    and m: "\<not> prefix ''video/'' (part_mimetype text_part)"
    and cf: "cloud_file_field cloud_text_request = Some text_part"
    and cf': "cloud_file_field cloud_refused_request = Some text_part"
    and l: "part_size text_part \<le> fileSize_limit"
    and pa: "provider_upload cloud_text_request
       = Inr (''harsh-resource-hub-videos/notes'', ''https://cdn.example/notes.mp4'', 10)"
    and pe: "provider_upload cloud_refused_request = Inl (Error ''Unsupported video format or file'')"
    by (simp_all add: text_request_def text_part_def cloud_text_request_def
        cloud_refused_request_def fileSize_limit_def)
  have o: "filter (\<lambda>c. readyState (env_first_open c) = OPEN) (cloud_clients cloud_two_clients) = [0]"
    by (simp add: cloud_two_clients_def env_first_open_def open_socket_def closed_socket_def)
  have t: "originalname text_part = ''notes.mp4''" "part_mimetype text_part = ''text/plain''"
    "cloud_iso_now cloud_text_request = ''2024-01-01T00:00:00.000Z''"
    by (simp_all add: text_part_def cloud_text_request_def)
  note a = non_video_upload [of text_request text_part one_client env_first_open
      cloud_text_request cloud_two_clients]
  note b = non_video_upload [of text_request text_part one_client env_first_open
      cloud_refused_request cloud_two_clients]
  from a f m have a1: "post_upload_video env_first_open text_request one_client
       = (one_client, [], Response 500 (JObj [(''error'', JStr ''Internal server error'')]))"
    by blast
  from a cf l pa
  have "cloud_post_upload_video env_first_open cloud_text_request cloud_two_clients
      = (cloud_two_clients,
         ProviderUpload (originalname text_part)
           # map (\<lambda>c. Send c (JObj
                    [(''type'', JStr ''new_video''),
                     (''video'', JObj
                        [(''id'', JStr ''harsh-resource-hub-videos/notes''),
                         (''name'', JStr (originalname text_part)),
                         (''url'', JStr ''https://cdn.example/notes.mp4''),
                         (''size'', JNum 10),
                         (''mimetype'', JStr (part_mimetype text_part)),
                         (''timestamp'', JStr (cloud_iso_now cloud_text_request))])]))
               (filter (\<lambda>c. readyState (env_first_open c) = OPEN)
                  (cloud_clients cloud_two_clients)),
         Response 200 (JObj
           [(''success'', JBool True),
            (''message'', JStr ''Video uploaded successfully''),
            (''video'', JObj
               [(''id'', JStr ''harsh-resource-hub-videos/notes''),
                (''name'', JStr (originalname text_part)),
                (''url'', JStr ''https://cdn.example/notes.mp4''),
                (''size'', JNum 10),
                (''mimetype'', JStr (part_mimetype text_part)),
                (''timestamp'', JStr (cloud_iso_now cloud_text_request))])]))"
    by blast
  then have a2: "cloud_post_upload_video env_first_open cloud_text_request cloud_two_clients
       = (cloud_two_clients,
          [ProviderUpload ''notes.mp4'',
           Send 0 (JObj [(''type'', JStr ''new_video''),
                         (''video'', JObj
                            [(''id'', JStr ''harsh-resource-hub-videos/notes''),
                             (''name'', JStr ''notes.mp4''),
                             (''url'', JStr ''https://cdn.example/notes.mp4''),
                             (''size'', JNum 10),
                             (''mimetype'', JStr ''text/plain''),
                             (''timestamp'', JStr ''2024-01-01T00:00:00.000Z'')])])],
          Response 200 (JObj
            [(''success'', JBool True),
             (''message'', JStr ''Video uploaded successfully''),
             (''video'', JObj
                [(''id'', JStr ''harsh-resource-hub-videos/notes''),
                 (''name'', JStr ''notes.mp4''),
                 (''url'', JStr ''https://cdn.example/notes.mp4''),
                 (''size'', JNum 10),
                 (''mimetype'', JStr ''text/plain''),
                 (''timestamp'', JStr ''2024-01-01T00:00:00.000Z'')])]))"
    by (simp only: o t list.map)
  from b cf' l pe
  have "cloud_post_upload_video env_first_open cloud_refused_request cloud_two_clients
       = (cloud_two_clients, [ProviderUpload (originalname text_part)], Response 500 JNull)"
    by blast
  then have b1: "cloud_post_upload_video env_first_open cloud_refused_request cloud_two_clients
       = (cloud_two_clients, [ProviderUpload ''notes.mp4''], Response 500 JNull)"
    by (simp only: t)
  from f m a1 cf l pa a2 cf' pe b1 show ?thesis by (intro conjI)
qed

theorem non_video_upload_counterexample:
  "\<not> prefix ''video/'' (part_mimetype text_part)
   \<and> cloud_file_field cloud_text_request = Some text_part
   \<and> cloud_post_upload_video env_open cloud_text_request cloud_one_client
       = (cloud_one_client,
          [ProviderUpload ''notes.mp4'',
           Send 0 (JObj [(''type'', JStr ''new_video''),
                         (''video'', JObj
                            [(''id'', JStr ''harsh-resource-hub-videos/notes''),
                             (''name'', JStr ''notes.mp4''),
                             (''url'', JStr ''https://cdn.example/notes.mp4''),
                             (''size'', JNum 10),
                             (''mimetype'', JStr ''text/plain''),
                             (''timestamp'', JStr ''2024-01-01T00:00:00.000Z'')])])],
          Response 200 (JObj
            [(''success'', JBool True),
             (''message'', JStr ''Video uploaded successfully''),
             (''video'', JObj
                [(''id'', JStr ''harsh-resource-hub-videos/notes''),
                 (''name'', JStr ''notes.mp4''),
                 (''url'', JStr ''https://cdn.example/notes.mp4''),
                 (''size'', JNum 10),
                 (''mimetype'', JStr ''text/plain''),
                 (''timestamp'', JStr ''2024-01-01T00:00:00.000Z'')])]))"
  by (simp add: cloud_post_upload_video_def cloud_upload_single_def cloud_upload_video_handler_def
      cloud_broadcast_def cloud_videoData_def cloud_text_request_def text_part_def
      cloud_one_client_def fileSize_limit_def env_open_def open_socket_def)

subsection \<open>Identifiers and the listing\<close>

lemma subseq_butlast: "subseq (butlast xs) xs"
  by (induction xs) auto

lemma step_videos_subseq:
  "subseq (videos (fst (step ev st))) (rev (inserted_by [ev]) @ videos st)"
proof (cases ev)
  case (PostUploadVideo env rq)
  show ?thesis
  proof (cases "inserted rq")
    case None
    with PostUploadVideo show ?thesis
      by (simp add: fst_step post_upload_video_videos del: step.simps)
  next
    case (Some v)
    have "subseq (butlast (v # videos st)) (v # videos st)"
      by (rule subseq_butlast)
    with Some PostUploadVideo show ?thesis
      by (simp add: fst_step post_upload_video_videos del: step.simps)
  qed
next
  case (DeleteVideo env fault videoId)
  from delete_video_videos[of env fault videoId st] subseq_splice1[of _ "videos st"]
  have "subseq (videos (fst (delete_video env fault videoId st))) (videos st)"
    by auto
  with DeleteVideo show ?thesis
    by (simp add: fst_step del: step.simps)
qed (simp_all add: fst_step on_connection_def on_close_def on_error_def del: step.simps)

lemma inserted_by_Cons: "inserted_by (ev # evs) = inserted_by [ev] @ inserted_by evs"
  by (cases ev) (simp_all split: option.splits)

lemma run_videos_subseq: "subseq (videos (run evs st)) (rev (inserted_by evs) @ videos st)"
proof (induction evs arbitrary: st)
  case Nil
  then show ?case by simp
next
  case (Cons ev evs)
  have "subseq (videos (run evs (fst (step ev st))))
      (rev (inserted_by evs) @ videos (fst (step ev st)))"
    by (rule Cons.IH)
  moreover have "subseq (rev (inserted_by evs) @ videos (fst (step ev st)))
      (rev (inserted_by evs) @ rev (inserted_by [ev]) @ videos st)"
    by (simp only: subseq_append' step_videos_subseq)
  ultimately have "subseq (videos (run evs (fst (step ev st))))
      (rev (inserted_by evs) @ rev (inserted_by [ev]) @ videos st)"
    by (rule subseq_order.trans)
  then show ?case
    by (simp add: inserted_by_Cons[of ev evs] del: step.simps inserted_by.simps)
qed

lemma keys_video_json:
  "keys (video_json v)
     = [''id'', ''name'', ''filename'', ''url'', ''size'', ''mimetype'', ''timestamp'']"
  by (simp add: video_json_def)

lemma keys_resource_json:
  "keys (resource_json r) = [''id'', ''name'', ''url'', ''size'', ''mimetype'', ''timestamp'']"
  by (simp add: resource_json_def)

lemma timestamp_of_resource_json: "timestamp_of (resource_json r) = created_at r"
  by (simp add: resource_json_def)

text \<open>
  Claim C7 at two accepted uploads of the local variant that read the same millisecond
  from the clock: both records are in the catalog under the same id, although their
  stored files have different names.
\<close>

theorem same_millisecond_ids_collide:
  "map id_v (videos (run same_ms_uploads (init []))) = [''5'', ''5'']
   \<and> map filename (videos (run same_ms_uploads (init []))) = [''5-8.mp4'', ''5-7.mp4'']"
proof -
  have a: "accepted ((sample_request 5)\<lparr>random := 8\<rparr>)"
    by (simp add: accepted_def sample_request_def sample_part_def fileSize_limit_def)
  have "videos (run same_ms_uploads (init []))
      = take 20 (rev (inserted_by same_ms_uploads) @ videos (init []))"
    by (rule run_insertions) (simp_all add: init_def same_ms_uploads_def sample_request_accepted a)
  then show ?thesis
    by (simp add: same_ms_uploads_def inserted_def accepted_def sample_request_def
        sample_part_def fileSize_limit_def init_def videoData_def disk_file_def uniqueName_def
        toString.simps)
qed

text \<open>
  Claim C8, as the code has it. The listing of the local variant answers 200 with the
  catalog as a JSON array, and leaves the state as it is; every element has exactly the
  fields id, name, filename, url, size, mimetype and timestamp; the array has at most 20
  elements and is in the order newest first (a subsequence of the inserted records,
  latest first). The listing of the cloud variant sends the provider one query, for the
  videos of the folder, sorted by \<^verbatim>\<open>created_at\<close> descending, at most 30. When the search
  succeeds the answer is 200 with the resources of the provider's answer in the
  provider's order, each with exactly the fields id, name, url, size, mimetype and
  timestamp, the timestamp being \<^verbatim>\<open>created_at\<close>; so the array is newest first and has
  at most 30 elements when the provider's answer keeps to the query. When the search
  fails the answer is 500.
\<close>

theorem listing_shape:
  "get_videos st = (st, [], Response 200 (JArr (map video_json (videos st))))
   \<and> (\<forall>j\<in>set (map video_json (videos st)).
         keys j = [''id'', ''name'', ''filename'', ''url'', ''size'', ''mimetype'', ''timestamp''])
   \<and> length (map video_json (videos (run evs (init fs)))) \<le> 20
   \<and> subseq (videos (run evs (init fs))) (rev (inserted_by evs))
   \<and> fst (cloud_get_videos execute cst) = cst
   \<and> fst (snd (cloud_get_videos execute cst))
       = [ProviderSearch
            \<lparr>expression = ''resource_type:video AND folder=harsh-resource-hub-videos'',
             sort_by = (''created_at'', ''desc''),
             max_results = 30\<rparr>]
   \<and> (\<forall>rs. execute
               \<lparr>expression = ''resource_type:video AND folder=harsh-resource-hub-videos'',
                sort_by = (''created_at'', ''desc''),
                max_results = 30\<rparr> = Inr rs \<longrightarrow>
         snd (snd (cloud_get_videos execute cst)) = Response 200 (JArr (map resource_json rs))
         \<and> (\<forall>j\<in>set (map resource_json rs).
               keys j = [''id'', ''name'', ''url'', ''size'', ''mimetype'', ''timestamp''])
         \<and> map timestamp_of (map resource_json rs) = map created_at rs
         \<and> (keeps_to
               \<lparr>expression = ''resource_type:video AND folder=harsh-resource-hub-videos'',
                sort_by = (''created_at'', ''desc''),
                max_results = 30\<rparr> rs \<longrightarrow>
               length (map resource_json rs) \<le> 30
               \<and> newest_first (map resource_json rs)))
   \<and> (\<forall>e. execute
              \<lparr>expression = ''resource_type:video AND folder=harsh-resource-hub-videos'',
               sort_by = (''created_at'', ''desc''),
               max_results = 30\<rparr> = Inl e \<longrightarrow>
         snd (snd (cloud_get_videos execute cst))
           = Response 500 (JObj [(''error'', JStr ''Failed to fetch videos'')]))"
proof -
  have q: "videos_query
      = \<lparr>expression = ''resource_type:video AND folder=harsh-resource-hub-videos'',
         sort_by = (''created_at'', ''desc''),
         max_results = 30\<rparr>"
    by (simp add: videos_query_def)
  have l1: "get_videos st = (st, [], Response 200 (JArr (map video_json (videos st))))"
    by (simp add: get_videos_def)
  have l2: "\<forall>j\<in>set (map video_json (videos st)).
         keys j = [''id'', ''name'', ''filename'', ''url'', ''size'', ''mimetype'', ''timestamp'']"
    by (auto simp: keys_video_json)
  have l3: "length (map video_json (videos (run evs (init fs)))) \<le> 20"
    using run_cap[of "init fs" evs] by (simp add: init_def)
  have l4: "subseq (videos (run evs (init fs))) (rev (inserted_by evs))"
    using run_videos_subseq[of evs "init fs"] by (simp add: init_def)
  have c1: "fst (cloud_get_videos execute cst) = cst"
    by (simp add: cloud_get_videos_def split: sum.splits)
  have c2: "fst (snd (cloud_get_videos execute cst)) = [ProviderSearch videos_query]"
    by (simp add: cloud_get_videos_def split: sum.splits)
  have c3: "\<forall>rs. execute videos_query = Inr rs \<longrightarrow>
         snd (snd (cloud_get_videos execute cst)) = Response 200 (JArr (map resource_json rs))
         \<and> (\<forall>j\<in>set (map resource_json rs).
               keys j = [''id'', ''name'', ''url'', ''size'', ''mimetype'', ''timestamp''])
         \<and> map timestamp_of (map resource_json rs) = map created_at rs
         \<and> (keeps_to videos_query rs \<longrightarrow>
               length (map resource_json rs) \<le> 30
               \<and> newest_first (map resource_json rs))"
  proof (intro allI impI conjI ballI)
    fix rs
    assume "execute videos_query = Inr rs"
    then show "snd (snd (cloud_get_videos execute cst))
        = Response 200 (JArr (map resource_json rs))"
      by (simp add: cloud_get_videos_def)
    show "map timestamp_of (map resource_json rs) = map created_at rs"
      by (simp add: timestamp_of_resource_json)
    {
      fix j
      assume "j \<in> set (map resource_json rs)"
      then show "keys j = [''id'', ''name'', ''url'', ''size'', ''mimetype'', ''timestamp'']"
        by (auto simp: keys_resource_json)
    }
    assume k: "keeps_to videos_query rs"
    then show "length (map resource_json rs) \<le> 30"
      by (simp add: keeps_to_def videos_query_def)
    from k have "sorted_wrt (\<lambda>a b. created_at b \<le> created_at a) rs"
      by (simp add: keeps_to_def videos_query_def)
    then show "newest_first (map resource_json rs)"
      by (simp add: newest_first_def sorted_wrt_map timestamp_of_resource_json)
  qed
  have c4: "\<forall>e. execute videos_query = Inl e \<longrightarrow>
         snd (snd (cloud_get_videos execute cst))
           = Response 500 (JObj [(''error'', JStr ''Failed to fetch videos'')])"
    by (simp add: cloud_get_videos_def error_body_def)
  from l1 l2 l3 l4 c1 c2[unfolded q] c3[unfolded q] c4[unfolded q] show ?thesis
    by (intro conjI)
qed

lemma sample_answer_keeps_to:
  "keeps_to
     \<lparr>expression = ''resource_type:video AND folder=harsh-resource-hub-videos'',
      sort_by = (''created_at'', ''desc''),
      max_results = 30\<rparr> [newer_resource, older_resource]"
  by (simp add: keeps_to_def newer_resource_def older_resource_def less_eq_char_def
      less_char_def)

theorem listing_shape_witness:
  "videos two_videos \<noteq> []
   \<and> list_all
        (\<lambda>j. keys j = [''id'', ''name'', ''filename'', ''url'', ''size'', ''mimetype'', ''timestamp''])
        (map video_json (videos two_videos))
   \<and> sample_execute
        \<lparr>expression = ''resource_type:video AND folder=harsh-resource-hub-videos'',
         sort_by = (''created_at'', ''desc''),
         max_results = 30\<rparr> = Inr [newer_resource, older_resource]
   \<and> keeps_to
        \<lparr>expression = ''resource_type:video AND folder=harsh-resource-hub-videos'',
         sort_by = (''created_at'', ''desc''),
         max_results = 30\<rparr> [newer_resource, older_resource]
   \<and> snd (snd (cloud_get_videos sample_execute cloud_one_client))
       = Response 200 (JArr (map resource_json [newer_resource, older_resource]))
   \<and> list_all (\<lambda>j. keys j = [''id'', ''name'', ''url'', ''size'', ''mimetype'', ''timestamp''])
        (map resource_json [newer_resource, older_resource])
   \<and> map timestamp_of (map resource_json [newer_resource, older_resource])
       = map created_at [newer_resource, older_resource]
   \<and> length (map resource_json [newer_resource, older_resource]) \<le> 30
   \<and> newest_first (map resource_json [newer_resource, older_resource])
   \<and> failing_execute
        \<lparr>expression = ''resource_type:video AND folder=harsh-resource-hub-videos'',
         sort_by = (''created_at'', ''desc''),
         max_results = 30\<rparr> = Inl (Error ''timeout'')
   \<and> snd (snd (cloud_get_videos failing_execute cloud_one_client))
       = Response 500 (JObj [(''error'', JStr ''Failed to fetch videos'')])"
proof -
  have ne: "videos two_videos \<noteq> []"
    by (simp add: two_videos_videos)
  have x: "sample_execute
        \<lparr>expression = ''resource_type:video AND folder=harsh-resource-hub-videos'',
         sort_by = (''created_at'', ''desc''),
         max_results = 30\<rparr> = Inr [newer_resource, older_resource]"
    by (simp add: sample_execute_def)
  note k = sample_answer_keeps_to
  have f: "failing_execute
        \<lparr>expression = ''resource_type:video AND folder=harsh-resource-hub-videos'',
         sort_by = (''created_at'', ''desc''),
         max_results = 30\<rparr> = Inl (Error ''timeout'')"
    by (simp add: failing_execute_def)
  note a = listing_shape [of two_videos "[]" "[]" sample_execute cloud_one_client]
  note b = listing_shape [of two_videos "[]" "[]" failing_execute cloud_one_client]
  from a have a1: "list_all
        (\<lambda>j. keys j = [''id'', ''name'', ''filename'', ''url'', ''size'', ''mimetype'', ''timestamp''])
        (map video_json (videos two_videos))"
    unfolding list_all_iff by blast
  from a x have a2: "snd (snd (cloud_get_videos sample_execute cloud_one_client))
       = Response 200 (JArr (map resource_json [newer_resource, older_resource]))"
    by blast
  from a x have a3: "list_all
        (\<lambda>j. keys j = [''id'', ''name'', ''url'', ''size'', ''mimetype'', ''timestamp''])
        (map resource_json [newer_resource, older_resource])"
    unfolding list_all_iff by blast
  from a x have a4: "map timestamp_of (map resource_json [newer_resource, older_resource])
       = map created_at [newer_resource, older_resource]"
    by blast
  from a x k have a5: "length (map resource_json [newer_resource, older_resource]) \<le> 30"
    and a6: "newest_first (map resource_json [newer_resource, older_resource])"
    by blast+
  from b f have b1: "snd (snd (cloud_get_videos failing_execute cloud_one_client))
       = Response 500 (JObj [(''error'', JStr ''Failed to fetch videos'')])"
    by blast
  from ne a1 x k a2 a3 a4 a5 a6 f b1 show ?thesis by (intro conjI)
qed

theorem listing_shape_counterexample:
  "snd (snd (get_videos (run [PostUploadVideo env_open (sample_request 5)] (init []))))
     = Response 200 (JArr
         [JObj [(''id'', JStr ''5''),
                (''name'', JStr ''clip.mp4''),
                (''filename'', JStr ''5-7.mp4''),
                (''url'', JStr ''/uploads/5-7.mp4''),
                (''size'', JNum 10),
                (''mimetype'', JStr ''video/mp4''),
                (''timestamp'', JStr ''2024-01-01T00:00:00.000Z'')]])
   \<and> snd (snd (cloud_get_videos failing_execute cloud_one_client))
       = Response 500 (JObj [(''error'', JStr ''Failed to fetch videos'')])"
proof -
  have "videos (run [PostUploadVideo env_open (sample_request 5)] (init []))
      = take 20 (rev (inserted_by [PostUploadVideo env_open (sample_request 5)]) @ videos (init []))"
    by (rule run_insertions) (simp_all add: init_def sample_request_accepted)
  then have "snd (snd (get_videos (run [PostUploadVideo env_open (sample_request 5)] (init []))))
     = Response 200 (JArr
         [JObj [(''id'', JStr ''5''),
                (''name'', JStr ''clip.mp4''),
                (''filename'', JStr ''5-7.mp4''),
                (''url'', JStr ''/uploads/5-7.mp4''),
                (''size'', JNum 10),
                (''mimetype'', JStr ''video/mp4''),
                (''timestamp'', JStr ''2024-01-01T00:00:00.000Z'')]])"
    by (simp add: get_videos_def video_json_def inserted_def accepted_def sample_request_def
        sample_part_def fileSize_limit_def init_def videoData_def disk_file_def uniqueName_def
        toString.simps)
  moreover have "snd (snd (cloud_get_videos failing_execute cloud_one_client))
       = Response 500 (JObj [(''error'', JStr ''Failed to fetch videos'')])"
    by (simp add: cloud_get_videos_def failing_execute_def error_body_def)
  ultimately show ?thesis by (intro conjI)
qed

subsection \<open>Deletion in the cloud variant\<close>

text \<open>
  Claim C9. In the cloud variant a deletion that the provider answers with
  \<^verbatim>\<open>not found\<close> is handled exactly as one answered \<^verbatim>\<open>ok\<close>: the answer is 200 with
  \<^verbatim>\<open>success: true\<close> and the event of type \<^verbatim>\<open>video_deleted\<close> with the requested id goes
  to every open registered channel. No listing is consulted, so this holds for every id.
\<close>

theorem cloud_delete_not_found:
  "cloud_delete_video env videoId (Inr ''not found'') st
     = (st,
        ProviderDestroy videoId
          # map (\<lambda>c. Send c (JObj [(''type'', JStr ''video_deleted''),
                                     (''videoId'', JStr videoId)]))
              (filter (\<lambda>c. readyState (env c) = OPEN) (cloud_clients st)),
        Response 200 (JObj [(''success'', JBool True),
                            (''message'', JStr ''Video deleted successfully'')]))
   \<and> cloud_delete_video env videoId (Inr ''not found'') st
       = cloud_delete_video env videoId (Inr ''ok'') st"
  by (simp add: cloud_delete_video_def cloud_broadcast_def forEach_send_eq
      video_deleted_event_def)

theorem cloud_delete_not_found_witness:
  "cloud_delete_video env_first_open ''never/uploaded'' (Inr ''not found'') cloud_two_clients
     = (cloud_two_clients,
        [ProviderDestroy ''never/uploaded'',
         Send 0 (JObj [(''type'', JStr ''video_deleted''),
                       (''videoId'', JStr ''never/uploaded'')])],
        Response 200 (JObj [(''success'', JBool True),
                            (''message'', JStr ''Video deleted successfully'')]))"
proof -
  have o: "filter (\<lambda>c. readyState (env_first_open c) = OPEN) (cloud_clients cloud_two_clients) = [0]"
    by (simp add: cloud_two_clients_def env_first_open_def open_socket_def closed_socket_def)
  from cloud_delete_not_found [of env_first_open "''never/uploaded''" cloud_two_clients]
  have "cloud_delete_video env_first_open ''never/uploaded'' (Inr ''not found'') cloud_two_clients
        = (cloud_two_clients,
           ProviderDestroy ''never/uploaded''
             # map (\<lambda>c. Send c (JObj [(''type'', JStr ''video_deleted''),
                                        (''videoId'', JStr ''never/uploaded'')]))
                 (filter (\<lambda>c. readyState (env_first_open c) = OPEN)
                    (cloud_clients cloud_two_clients)),
           Response 200 (JObj [(''success'', JBool True),
                               (''message'', JStr ''Video deleted successfully'')]))"
    by (rule conjunct1)
  then show ?thesis
    by (simp only: o list.map)
qed

end
